theory Spec2Isabelle
  imports Main
begin

section \<open>Types and declarations, as the checker reads them\<close>

text \<open>
  The model follows lib/Sema/TypeCheckDeclObjC.cpp. The AST is read-only for the checker;
  what it asks of a type or a declaration is a field or a function below. Source
  locations and ranges are not modelled: a diagnostic is its identifier and its operands.
\<close>

datatype ForeignKind = Normal | CFType | RuntimeOnly

record ClassDecl =
  className :: string
  classIsObjC :: bool
  getForeignClassKind :: ForeignKind
  classHasClangNode :: bool

record ProtocolDecl =
  protocolName :: string
  protocolIsObjC :: bool
  isErrorProtocol :: bool

text \<open>
  The forms of type that the file tells apart. \<^verbatim>\<open>Optional<T>\<close> has a constructor of
  its own, since the checker looks through it with \<^verbatim>\<open>getOptionalObjectType\<close>; an
  existential carries its explicit superclass and its protocols (its layout). A declared
  parameter or result type is never an lvalue type, so there is no constructor for one.
\<close>

datatype Type =
    TupleType "Type list"
  | ClassType ClassDecl
  | StructType string
  | EnumType string
  | BoundGenericType string "Type list"
  | OptionalType Type
  | ExistentialType "ClassDecl option" "ProtocolDecl list"
  | ArchetypeType string
  | GenericTypeParamType string
  | FunctionType "Type list" Type bool
  | ErrorType

fun isVoid :: "Type \<Rightarrow> bool" where
  "isVoid (TupleType []) = True"
| "isVoid T = False"

fun getOptionalObjectType :: "Type \<Rightarrow> Type option" where
  "getOptionalObjectType (OptionalType T) = Some T"
| "getOptionalObjectType T = None"

fun isAnyFunctionType :: "Type \<Rightarrow> bool" where
  "isAnyFunctionType (FunctionType params result throws) = True"
| "isAnyFunctionType T = False"

text \<open>\<^verbatim>\<open>getRValueType\<close> strips an lvalue type; the types here have none.\<close>

definition getRValueType :: "Type \<Rightarrow> Type" where
  "getRValueType T = T"

text \<open>Types carry no sugar here, so a type is its own canonical type.\<close>

definition getCanonicalType :: "Type \<Rightarrow> Type" where
  "getCanonicalType T = T"

fun hasError :: "Type \<Rightarrow> bool" where
  "hasError ErrorType = True"
| "hasError (TupleType elts) = (\<exists>T \<in> set elts. hasError T)"
| "hasError (BoundGenericType n args) = (\<exists>T \<in> set args. hasError T)"
| "hasError (OptionalType T) = hasError T"
| "hasError (FunctionType params result throws) =
     ((\<exists>T \<in> set params. hasError T) \<or> hasError result)"
| "hasError T = False"

text \<open>
  \<^verbatim>\<open>mapTypeIntoContext\<close> replaces the generic parameters of an interface type by the
  archetypes of the declaration's context.
\<close>

fun mapTypeIntoContext :: "Type \<Rightarrow> Type" where
  "mapTypeIntoContext (GenericTypeParamType n) = ArchetypeType n"
| "mapTypeIntoContext (TupleType elts) = TupleType (map mapTypeIntoContext elts)"
| "mapTypeIntoContext (BoundGenericType n args) = BoundGenericType n (map mapTypeIntoContext args)"
| "mapTypeIntoContext (OptionalType T) = OptionalType (mapTypeIntoContext T)"
| "mapTypeIntoContext (FunctionType params result throws) =
     FunctionType (map mapTypeIntoContext params) (mapTypeIntoContext result) throws"
| "mapTypeIntoContext T = T"

datatype ForeignRepresentableKind =
    FRK_None
  | FRK_Trivial
  | FRK_Object
  | FRK_Bridged
  | FRK_BridgedError
  | FRK_StaticBridged

record NominalTypeDecl =
  nominalName :: string
  getDeclaredType :: Type

datatype LookupResult = NominalResult NominalTypeDecl | OtherResult

datatype Swift3ObjCInferenceWarnings = WarnNone | WarnMinimal | WarnComplete

record LangOptions =
  EnableSwift3ObjCInference :: bool
  EnableObjCInterop :: bool
  EnableObjCAttrRequiresFoundation :: bool
  WarnSwift3ObjCInference :: Swift3ObjCInferenceWarnings
  isSwiftVersion3 :: bool

text \<open>
  The \<^verbatim>\<open>ASTContext\<close>: the language options, the well-known declarations and the
  loaded modules (a module is the list of its members by name). Three functions that the
  file calls are defined elsewhere in the compiler and are not among the sources; they are
  fields of the context, so that every result below holds whatever they compute:
  \<^verbatim>\<open>getForeignRepresentableIn\<close> for Objective-C (the representability oracle, taken
  for the declaration at hand), \<^verbatim>\<open>isUninhabited\<close> and
  \<^verbatim>\<open>camel_case::getLastWord\<close>.
\<close>

record ASTContext =
  LangOpts :: LangOptions
  getObjCBoolDecl :: "NominalTypeDecl option"
  getBoolDecl :: "NominalTypeDecl option"
  getAutoreleasingUnsafeMutablePointerDecl :: string
  loadedModules :: "(string \<times> (string \<times> LookupResult) list) list"
  getForeignRepresentableIn :: "Type \<Rightarrow> ForeignRepresentableKind"
  isUninhabited :: "Type \<Rightarrow> bool"
  getLastWord :: "string \<Rightarrow> string"

text \<open>
  Modelled from the spec: \<^verbatim>\<open>TypeBase::isRepresentableIn\<close> is defined outside the
  sources. Section 4.2: a parameter passes if its type is representable per the oracle,
  that is, its classification is other than None.
\<close>

definition isRepresentableIn :: "ASTContext \<Rightarrow> Type \<Rightarrow> bool" where
  "isRepresentableIn ctx T = (getForeignRepresentableIn ctx T \<noteq> FRK_None)"

section \<open>Reasons, fatal errors and diagnostics\<close>

datatype ObjCReason =
    ExplicitlyCDecl
  | ExplicitlyDynamic
  | ExplicitlyObjC
  | ExplicitlyIBOutlet
  | ExplicitlyIBAction
  | ExplicitlyNSManaged
  | MemberOfObjCProtocol
  | OverridesObjC
  | WitnessToObjC
  | ImplicitlyObjC
  | ExplicitlyIBInspectable
  | ExplicitlyGKInspectable
  | MemberOfObjCExtension
  | MemberOfObjCSubclass
  | MemberOfObjCMembersClass
  | Accessor

text \<open>\<^verbatim>\<open>shouldDiagnoseObjCReason\<close>, lines 29-53.\<close>

fun shouldDiagnoseObjCReason :: "ObjCReason \<Rightarrow> ASTContext \<Rightarrow> bool" where
  "shouldDiagnoseObjCReason ExplicitlyCDecl ctx = True"
| "shouldDiagnoseObjCReason ExplicitlyDynamic ctx = True"
| "shouldDiagnoseObjCReason ExplicitlyObjC ctx = True"
| "shouldDiagnoseObjCReason ExplicitlyIBOutlet ctx = True"
| "shouldDiagnoseObjCReason ExplicitlyIBAction ctx = True"
| "shouldDiagnoseObjCReason ExplicitlyNSManaged ctx = True"
| "shouldDiagnoseObjCReason MemberOfObjCProtocol ctx = True"
| "shouldDiagnoseObjCReason OverridesObjC ctx = True"
| "shouldDiagnoseObjCReason WitnessToObjC ctx = True"
| "shouldDiagnoseObjCReason ImplicitlyObjC ctx = True"
| "shouldDiagnoseObjCReason MemberOfObjCExtension ctx = True"
| "shouldDiagnoseObjCReason ExplicitlyIBInspectable ctx =
     (\<not> EnableSwift3ObjCInference (LangOpts ctx))"
| "shouldDiagnoseObjCReason ExplicitlyGKInspectable ctx =
     (\<not> EnableSwift3ObjCInference (LangOpts ctx))"
| "shouldDiagnoseObjCReason MemberOfObjCSubclass ctx = False"
| "shouldDiagnoseObjCReason MemberOfObjCMembersClass ctx = False"
| "shouldDiagnoseObjCReason Accessor ctx = False"

text \<open>
  The ways in which the code stops the process: \<^verbatim>\<open>llvm_unreachable\<close>, a failed
  \<^verbatim>\<open>assert\<close> and a failed \<^verbatim>\<open>cast\<close>.
\<close>

datatype fatal =
    Unreachable string
  | AssertionFailed string
  | BadCast

text \<open>
  \<^verbatim>\<open>getObjCDiagnosticAttrKind\<close>, lines 55-77. The value returned is
  \<^verbatim>\<open>static_cast<unsigned>(reason)\<close>; the order of the enumerators is declared in
  TypeCheckObjC.h, which is not among the sources, so the number is kept symbolic as the
  reason it was cast from.
\<close>

datatype AttrKind = AttrKindOf ObjCReason

fun getObjCDiagnosticAttrKind :: "ObjCReason \<Rightarrow> fatal + AttrKind" where
  "getObjCDiagnosticAttrKind ExplicitlyCDecl = Inr (AttrKindOf ExplicitlyCDecl)"
| "getObjCDiagnosticAttrKind ExplicitlyDynamic = Inr (AttrKindOf ExplicitlyDynamic)"
| "getObjCDiagnosticAttrKind ExplicitlyObjC = Inr (AttrKindOf ExplicitlyObjC)"
| "getObjCDiagnosticAttrKind ExplicitlyIBOutlet = Inr (AttrKindOf ExplicitlyIBOutlet)"
| "getObjCDiagnosticAttrKind ExplicitlyIBAction = Inr (AttrKindOf ExplicitlyIBAction)"
| "getObjCDiagnosticAttrKind ExplicitlyNSManaged = Inr (AttrKindOf ExplicitlyNSManaged)"
| "getObjCDiagnosticAttrKind MemberOfObjCProtocol = Inr (AttrKindOf MemberOfObjCProtocol)"
| "getObjCDiagnosticAttrKind OverridesObjC = Inr (AttrKindOf OverridesObjC)"
| "getObjCDiagnosticAttrKind WitnessToObjC = Inr (AttrKindOf WitnessToObjC)"
| "getObjCDiagnosticAttrKind ImplicitlyObjC = Inr (AttrKindOf ImplicitlyObjC)"
| "getObjCDiagnosticAttrKind ExplicitlyIBInspectable = Inr (AttrKindOf ExplicitlyIBInspectable)"
| "getObjCDiagnosticAttrKind ExplicitlyGKInspectable = Inr (AttrKindOf ExplicitlyGKInspectable)"
| "getObjCDiagnosticAttrKind MemberOfObjCExtension = Inr (AttrKindOf MemberOfObjCExtension)"
| "getObjCDiagnosticAttrKind MemberOfObjCSubclass =
     Inl (Unreachable ''should not diagnose this @objc reason'')"
| "getObjCDiagnosticAttrKind MemberOfObjCMembersClass =
     Inl (Unreachable ''should not diagnose this @objc reason'')"
| "getObjCDiagnosticAttrKind Accessor =
     Inl (Unreachable ''should not diagnose this @objc reason'')"

text \<open>An Objective-C selector: its number of arguments and its pieces.\<close>

datatype ObjCSelector = ObjCSelector (getNumArgs: nat) (getSelectorPieces: "string list")

text \<open>
  A diagnostic is the name of its \<^verbatim>\<open>diag::\<close> identifier and its operands, in the
  order of emission.
\<close>

datatype DiagArg =
    ArgUnsigned nat
  | ArgAttrKind AttrKind
  | ArgType Type
  | ArgSelector ObjCSelector
  | ArgName string

datatype Diag = Diag string "DiagArg list"

section \<open>Foreign error conventions\<close>

datatype Kind = ZeroResult | NonZeroResult | ZeroPreservedResult | NilResult | NonNilError

datatype IsOwned_t = IsNotOwned | IsOwned

datatype IsReplaced_t = IsNotReplaced | IsReplaced

record ForeignErrorConvention =
  getKind :: Kind
  getErrorParameterIndex :: nat
  isErrorOwned :: IsOwned_t
  isErrorParameterReplaced :: IsReplaced_t
  getErrorParameterType :: "Type option"
  getResultType :: "Type option"

definition isErrorParameterReplacedWithVoid :: "ForeignErrorConvention \<Rightarrow> bool" where
  "isErrorParameterReplacedWithVoid c = (isErrorParameterReplaced c = IsReplaced)"

text \<open>
  Modelled from the spec: the five static constructors of
  \<^verbatim>\<open>ForeignErrorConvention\<close> are declared in swift/AST/ForeignErrorConvention.h,
  which is not among the sources. Section 3: each kind carries the index of the injected
  error parameter, an ownership flag, a replaces-existing-parameter flag, the injected
  parameter's canonical type and, for the two Result kinds that take it, the canonical
  sentinel-result type. Each constructor builds the convention of the kind it is named
  after.
\<close>

definition getZeroResult ::
  "nat \<Rightarrow> IsOwned_t \<Rightarrow> IsReplaced_t \<Rightarrow> Type option \<Rightarrow> Type option \<Rightarrow> ForeignErrorConvention" where
  "getZeroResult idx owned replaced paramTy resultTy =
     \<lparr>getKind = ZeroResult, getErrorParameterIndex = idx, isErrorOwned = owned,
      isErrorParameterReplaced = replaced, getErrorParameterType = paramTy,
      getResultType = resultTy\<rparr>"

definition getNonZeroResult ::
  "nat \<Rightarrow> IsOwned_t \<Rightarrow> IsReplaced_t \<Rightarrow> Type option \<Rightarrow> Type option \<Rightarrow> ForeignErrorConvention" where
  "getNonZeroResult idx owned replaced paramTy resultTy =
     \<lparr>getKind = NonZeroResult, getErrorParameterIndex = idx, isErrorOwned = owned,
      isErrorParameterReplaced = replaced, getErrorParameterType = paramTy,
      getResultType = resultTy\<rparr>"

definition getZeroPreservedResult ::
  "nat \<Rightarrow> IsOwned_t \<Rightarrow> IsReplaced_t \<Rightarrow> Type option \<Rightarrow> ForeignErrorConvention" where
  "getZeroPreservedResult idx owned replaced paramTy =
     \<lparr>getKind = ZeroPreservedResult, getErrorParameterIndex = idx, isErrorOwned = owned,
      isErrorParameterReplaced = replaced, getErrorParameterType = paramTy,
      getResultType = None\<rparr>"

definition getNilResult ::
  "nat \<Rightarrow> IsOwned_t \<Rightarrow> IsReplaced_t \<Rightarrow> Type option \<Rightarrow> ForeignErrorConvention" where
  "getNilResult idx owned replaced paramTy =
     \<lparr>getKind = NilResult, getErrorParameterIndex = idx, isErrorOwned = owned,
      isErrorParameterReplaced = replaced, getErrorParameterType = paramTy,
      getResultType = None\<rparr>"

section \<open>Declarations\<close>

record ParamDecl =
  getArgumentName :: string
  hasType :: bool
  getType :: Type
  isVariadic :: bool
  isInOut :: bool

datatype AccessorKind =
    AK_Get
  | AK_Set
  | AK_WillSet
  | AK_DidSet
  | AK_MaterializeForSet
  | AK_Address
  | AK_MutableAddress

datatype OptionalTypeKind = OTK_None | OTK_Optional | OTK_ImplicitlyUnwrappedOptional

record StorageDecl =
  storageIsObjC :: bool
  storageIsVarDecl :: bool

text \<open>
  The classes of declaration that the file tells apart with \<^verbatim>\<open>isa\<close> and
  \<^verbatim>\<open>dyn_cast\<close>. An accessor carries its kind and its storage, an initializer its
  failability. \<^verbatim>\<open>AccessorDecl\<close> is a subclass of \<^verbatim>\<open>FuncDecl\<close>.
\<close>

datatype DeclKind =
    FuncDecl
  | AccessorDecl AccessorKind StorageDecl
  | ConstructorDecl OptionalTypeKind
  | DestructorDecl
  | VarDecl
  | SubscriptDecl

fun isaFuncDecl :: "DeclKind \<Rightarrow> bool" where
  "isaFuncDecl FuncDecl = True"
| "isaFuncDecl (AccessorDecl k st) = True"
| "isaFuncDecl K = False"

fun isaConstructorDecl :: "DeclKind \<Rightarrow> bool" where
  "isaConstructorDecl (ConstructorDecl f) = True"
| "isaConstructorDecl K = False"

fun isaAbstractFunctionDecl :: "DeclKind \<Rightarrow> bool" where
  "isaAbstractFunctionDecl VarDecl = False"
| "isaAbstractFunctionDecl SubscriptDecl = False"
| "isaAbstractFunctionDecl K = True"

record ExtensionDecl =
  getTrailingWhereClause :: bool
  getGenericAncestor :: "ClassDecl option"
  extendedClass :: "ClassDecl option"
  extensionHasObjCAttr :: bool
  extensionHasNonObjCAttr :: bool

datatype DeclContext =
    ClassContext ClassDecl
  | ExtensionContext ExtensionDecl
  | ProtocolContext ProtocolDecl
  | OtherContext

text \<open>
  The class of the context's declared interface type, if it has one:
  \<^verbatim>\<open>getDeclContext()->getDeclaredInterfaceType()->getClassOrBoundGenericClass()\<close>.
\<close>

fun contextClass :: "DeclContext \<Rightarrow> ClassDecl option" where
  "contextClass (ClassContext c) = Some c"
| "contextClass (ExtensionContext e) = extendedClass e"
| "contextClass (ProtocolContext p) = None"
| "contextClass OtherContext = None"

record ObjCAttr =
  getName :: "ObjCSelector option"
  isNameImplicit :: bool
  isSwift3Inferred :: bool

datatype OverriddenKind = OverriddenFunc | OverriddenVar | OverriddenOther

text \<open>What the file reads of the declaration that a declaration overrides.\<close>

record OverriddenDecl =
  overriddenKind :: OverriddenKind
  overriddenIsObjC :: bool
  overriddenObjCSelector :: ObjCSelector
  overriddenObjCPropertyName :: string
  overriddenForeignErrorConvention :: "ForeignErrorConvention option"

text \<open>
  A value declaration; \<^verbatim>\<open>getParameters\<close> is \<^verbatim>\<open>getParameterLists().back()\<close>,
  \<^verbatim>\<open>witnessedObjCRequirements\<close> the Objective-C runtime names of the requirements
  that \<^verbatim>\<open>findWitnessedObjCRequirements\<close> returns, in its order,
  \<^verbatim>\<open>defaultObjCSelector\<close> the selector that \<^verbatim>\<open>getObjCSelector\<close> derives from
  the Swift name when no attribute names one. \<^verbatim>\<open>objcAttr\<close> is the valid
  \<^verbatim>\<open>@objc\<close> attribute, if any; \<^verbatim>\<open>dynamicAttrValid\<close> and
  \<^verbatim>\<open>nonObjCAttrValid\<close> tell whether the attribute is there and whether it is still
  valid (\<^verbatim>\<open>getAttribute\<close> skips an attribute marked invalid).
\<close>

record ValueDecl =
  declKind :: DeclKind
  getDeclContext :: DeclContext
  getParameters :: "ParamDecl list"
  hasThrows :: bool
  getResultInterfaceType :: Type
  getGenericParams :: bool
  isOperator :: bool
  isInstanceMember :: bool
  getOverriddenDecl :: "OverriddenDecl option"
  objcAttr :: "ObjCAttr option"
  isObjC :: bool
  dynamicAttrValid :: "bool option"
  nonObjCAttrValid :: "bool option"
  getForeignErrorConvention :: "ForeignErrorConvention option"
  witnessedObjCRequirements :: "ObjCSelector list"
  defaultObjCSelector :: ObjCSelector

text \<open>
  Modelled from the spec: \<^verbatim>\<open>ConstructorDecl::isObjCZeroParameterWithLongSelector\<close> is
  defined outside the sources. Section 4.4 calls it the single-named-Void-parameter
  initializer special case, and the comment at lines 490-499 reads: an initializer with a
  single, named parameter of type \<^verbatim>\<open>()\<close>.
\<close>

definition isObjCZeroParameterWithLongSelector :: "ValueDecl \<Rightarrow> bool" where
  "isObjCZeroParameterWithLongSelector CD =
     (case getParameters CD of
        [P] \<Rightarrow> getArgumentName P \<noteq> [] \<and> isVoid (getType P)
      | _ \<Rightarrow> False)"

section \<open>Describing a failure\<close>

text \<open>
  \<^verbatim>\<open>describeObjCReason\<close>, lines 81-100. The names of declarations that the notes
  print are left out of the operands.
\<close>

definition describeObjCReason :: "ValueDecl \<Rightarrow> ObjCReason \<Rightarrow> Diag list" where
  "describeObjCReason VD Reason =
     (if Reason = MemberOfObjCProtocol then
        [Diag ''objc_inferring_on_objc_protocol_member'' []]
      else if Reason = OverridesObjC then
        (let kind = (if declKind VD = VarDecl then 0
                     else if declKind VD = SubscriptDecl then 1
                     else if isaConstructorDecl (declKind VD) then 2
                     else 3)
         in [Diag ''objc_overriding_objc_decl'' [ArgUnsigned kind]])
      else if Reason = WitnessToObjC then
        [Diag ''objc_witness_objc_requirement'' []]
      else [])"

text \<open>
  The loop of lines 160-175 over the protocols of an existential: the first protocol that
  is \<^verbatim>\<open>Error\<close> ends the search, the first that is not \<^verbatim>\<open>@objc\<close> is diagnosed.
\<close>

fun diagnoseProtocols :: "ProtocolDecl list \<Rightarrow> Diag list" where
  "diagnoseProtocols [] = []"
| "diagnoseProtocols (PD # rest) =
     (if isErrorProtocol PD then [Diag ''not_objc_error_protocol_composition'' []]
      else if \<not> protocolIsObjC PD then
        [Diag ''not_objc_protocol'' [ArgName (protocolName PD)]]
      else diagnoseProtocols rest)"

text \<open>\<^verbatim>\<open>diagnoseTypeNotRepresentableInObjC\<close>, lines 102-203.\<close>

fun diagnoseTypeNotRepresentableInObjC :: "Type \<Rightarrow> Diag list" where
  "diagnoseTypeNotRepresentableInObjC (TupleType elts) =
     (if isVoid (TupleType elts) then [Diag ''not_objc_empty_tuple'' []]
      else [Diag ''not_objc_tuple'' []])"
| "diagnoseTypeNotRepresentableInObjC (ClassType CD) =
     (if \<not> classIsObjC CD then [Diag ''not_objc_swift_class'' []] else [])"
| "diagnoseTypeNotRepresentableInObjC (StructType n) = [Diag ''not_objc_swift_struct'' []]"
| "diagnoseTypeNotRepresentableInObjC (EnumType n) = [Diag ''not_objc_swift_enum'' []]"
| "diagnoseTypeNotRepresentableInObjC (ExistentialType superclass protocols) =
     (if superclass = None \<and> protocols = [] then
        [Diag ''not_objc_empty_protocol_composition'' []]
      else
        (case superclass of
           Some CD \<Rightarrow>
             (if \<not> classIsObjC CD then
                [Diag ''not_objc_class_constraint'' [ArgName (className CD)]]
              else diagnoseProtocols protocols)
         | None \<Rightarrow> diagnoseProtocols protocols))"
| "diagnoseTypeNotRepresentableInObjC (ArchetypeType n) =
     [Diag ''not_objc_generic_type_param'' []]"
| "diagnoseTypeNotRepresentableInObjC (GenericTypeParamType n) =
     [Diag ''not_objc_generic_type_param'' []]"
| "diagnoseTypeNotRepresentableInObjC (FunctionType params result throws) =
     (if throws then [Diag ''not_objc_function_type_throwing'' []]
      else [Diag ''not_objc_function_type_param'' []])"
| "diagnoseTypeNotRepresentableInObjC T = []"

text \<open>\<^verbatim>\<open>diagnoseFunctionParamNotRepresentable\<close>, lines 205-226.\<close>

definition diagnoseFunctionParamNotRepresentable ::
  "ASTContext \<Rightarrow> ValueDecl \<Rightarrow> nat \<Rightarrow> nat \<Rightarrow> ParamDecl \<Rightarrow> ObjCReason \<Rightarrow> fatal + Diag list" where
  "diagnoseFunctionParamNotRepresentable ctx AFD NumParams ParamIndex P Reason =
     (if \<not> shouldDiagnoseObjCReason Reason ctx then Inr []
      else
        (case getObjCDiagnosticAttrKind Reason of
           Inl e \<Rightarrow> Inl e
         | Inr k \<Rightarrow>
             Inr ((if NumParams = 1 then
                     [Diag ''objc_invalid_on_func_single_param_type'' [ArgAttrKind k]]
                   else
                     [Diag ''objc_invalid_on_func_param_type''
                        [ArgUnsigned (ParamIndex + 1), ArgAttrKind k]])
                  @ (if hasType P then diagnoseTypeNotRepresentableInObjC (getType P) else [])
                  @ describeObjCReason AFD Reason)))"

section \<open>The parameter list\<close>

text \<open>
  The exception of lines 270-282: \<^verbatim>\<open>()\<close> is permitted when the method throws and
  overrides a method whose foreign error convention replaces the error parameter by
  \<^verbatim>\<open>()\<close> at this very index.
\<close>

definition isReplacedErrorParameter :: "ValueDecl \<Rightarrow> ParamDecl \<Rightarrow> nat \<Rightarrow> bool" where
  "isReplacedErrorParameter AFD param ParamIndex =
     (isVoid (getType param) \<and> hasThrows AFD \<and>
      (case getOverriddenDecl AFD of
         None \<Rightarrow> False
       | Some overridden \<Rightarrow>
           (case overriddenForeignErrorConvention overridden of
              None \<Rightarrow> False
            | Some foreignError \<Rightarrow>
                isErrorParameterReplacedWithVoid foreignError \<and>
                getErrorParameterIndex foreignError = ParamIndex)))"

text \<open>
  The loop of \<^verbatim>\<open>isParamListRepresentableInObjC\<close>, lines 238-293, from parameter
  \<^verbatim>\<open>ParamIndex\<close> on: the parameters still to visit, the value of \<^verbatim>\<open>IsObjC\<close> and
  the diagnostics emitted so far. The result is the value returned and the diagnostics.
\<close>

fun paramLoop ::
  "ASTContext \<Rightarrow> ValueDecl \<Rightarrow> ObjCReason \<Rightarrow> nat \<Rightarrow> nat \<Rightarrow> bool \<Rightarrow> Diag list \<Rightarrow> ParamDecl list
   \<Rightarrow> fatal + (bool \<times> Diag list)" where
  "paramLoop ctx AFD Reason NumParams ParamIndex IsObjC ds [] = Inr (IsObjC, ds)"
| "paramLoop ctx AFD Reason NumParams ParamIndex IsObjC ds (param # rest) =
     (let Diagnose = shouldDiagnoseObjCReason Reason ctx in
      if isVariadic param then
        (if Diagnose \<and> shouldDiagnoseObjCReason Reason ctx then
           (case getObjCDiagnosticAttrKind Reason of
              Inl e \<Rightarrow> Inl e
            | Inr k \<Rightarrow>
                Inr (False, ds @ [Diag ''objc_invalid_on_func_variadic'' [ArgAttrKind k]]
                              @ describeObjCReason AFD Reason))
         else Inr (False, ds))
      else if isInOut param then
        (if Diagnose \<and> shouldDiagnoseObjCReason Reason ctx then
           (case getObjCDiagnosticAttrKind Reason of
              Inl e \<Rightarrow> Inl e
            | Inr k \<Rightarrow>
                Inr (False, ds @ [Diag ''objc_invalid_on_func_inout'' [ArgAttrKind k]]
                              @ describeObjCReason AFD Reason))
         else Inr (False, ds))
      else if isRepresentableIn ctx (getType param) then
        paramLoop ctx AFD Reason NumParams (ParamIndex + 1) IsObjC ds rest
      else if isReplacedErrorParameter AFD param ParamIndex then
        paramLoop ctx AFD Reason NumParams (ParamIndex + 1) IsObjC ds rest
      else if \<not> Diagnose then Inr (False, ds)
      else
        (case diagnoseFunctionParamNotRepresentable ctx AFD NumParams ParamIndex param Reason of
           Inl e \<Rightarrow> Inl e
         | Inr ds' \<Rightarrow> paramLoop ctx AFD Reason NumParams (ParamIndex + 1) False (ds @ ds') rest))"

text \<open>\<^verbatim>\<open>isParamListRepresentableInObjC\<close>, lines 228-294.\<close>

definition isParamListRepresentableInObjC ::
  "ASTContext \<Rightarrow> ValueDecl \<Rightarrow> ParamDecl list \<Rightarrow> ObjCReason \<Rightarrow> fatal + (bool \<times> Diag list)" where
  "isParamListRepresentableInObjC ctx AFD PL Reason =
     paramLoop ctx AFD Reason (length PL) 0 True [] PL"

section \<open>The checks on the declaration's context\<close>

text \<open>\<^verbatim>\<open>checkObjCWithGenericParams\<close>, lines 298-314.\<close>

definition checkObjCWithGenericParams ::
  "ASTContext \<Rightarrow> ValueDecl \<Rightarrow> ObjCReason \<Rightarrow> fatal + (bool \<times> Diag list)" where
  "checkObjCWithGenericParams ctx AFD Reason =
     (let Diagnose = shouldDiagnoseObjCReason Reason ctx in
      if getGenericParams AFD then
        (if Diagnose then
           (case getObjCDiagnosticAttrKind Reason of
              Inl e \<Rightarrow> Inl e
            | Inr k \<Rightarrow>
                Inr (True, [Diag ''objc_invalid_with_generic_params'' [ArgAttrKind k]]
                             @ describeObjCReason AFD Reason))
         else Inr (True, []))
      else Inr (False, []))"

text \<open>\<^verbatim>\<open>checkObjCInForeignClassContext\<close>, lines 318-353.\<close>

definition checkObjCInForeignClassContext ::
  "ASTContext \<Rightarrow> ValueDecl \<Rightarrow> ObjCReason \<Rightarrow> fatal + (bool \<times> Diag list)" where
  "checkObjCInForeignClassContext ctx VD Reason =
     (let Diagnose = shouldDiagnoseObjCReason Reason ctx in
      case contextClass (getDeclContext VD) of
        None \<Rightarrow> Inr (False, [])
      | Some clas \<Rightarrow>
          (case getForeignClassKind clas of
             Normal \<Rightarrow> Inr (False, [])
           | CFType \<Rightarrow>
               (if Diagnose then
                  (case getObjCDiagnosticAttrKind Reason of
                     Inl e \<Rightarrow> Inl e
                   | Inr k \<Rightarrow>
                       Inr (True, [Diag ''objc_invalid_on_foreign_class'' [ArgAttrKind k]]
                                    @ describeObjCReason VD Reason))
                else Inr (True, []))
           | RuntimeOnly \<Rightarrow>
               (if Diagnose then
                  (case getObjCDiagnosticAttrKind Reason of
                     Inl e \<Rightarrow> Inl e
                   | Inr k \<Rightarrow>
                       Inr (True, [Diag ''objc_in_objc_runtime_visible''
                                      [ArgAttrKind k, ArgName (className clas)]]
                                    @ describeObjCReason VD Reason))
                else Inr (True, []))))"

text \<open>\<^verbatim>\<open>checkObjCInExtensionContext\<close>, lines 359-387.\<close>

definition checkObjCInExtensionContext :: "ValueDecl \<Rightarrow> bool \<Rightarrow> bool \<times> Diag list" where
  "checkObjCInExtensionContext val diagnose =
     (case getDeclContext val of
        ExtensionContext ED \<Rightarrow>
          (if getTrailingWhereClause ED then
             (True, if diagnose then [Diag ''objc_in_extension_context'' []] else [])
           else
             (case getGenericAncestor ED of
                Some generic \<Rightarrow>
                  (if \<not> classHasClangNode generic then
                     (True, if diagnose then [Diag ''objc_in_generic_extension'' []] else [])
                   else (False, []))
              | None \<Rightarrow> (False, [])))
      | _ \<Rightarrow> (False, []))"

text \<open>\<^verbatim>\<open>isBridgedToObjectiveCClass\<close>, lines 396-411.\<close>

definition isBridgedToObjectiveCClass :: "ASTContext \<Rightarrow> Type \<Rightarrow> bool" where
  "isBridgedToObjectiveCClass ctx T =
     (case getForeignRepresentableIn ctx T of
        FRK_Trivial \<Rightarrow> False
      | FRK_None \<Rightarrow> False
      | FRK_Object \<Rightarrow> True
      | FRK_Bridged \<Rightarrow> True
      | FRK_BridgedError \<Rightarrow> True
      | FRK_StaticBridged \<Rightarrow> True)"

section \<open>Representability of a function: the part before the error convention\<close>

text \<open>
  The accessor branch of \<^verbatim>\<open>isRepresentableInObjC\<close>, lines 438-488; every path of it
  returns.
\<close>

definition checkAccessor ::
  "ASTContext \<Rightarrow> ValueDecl \<Rightarrow> AccessorKind \<Rightarrow> StorageDecl \<Rightarrow> ObjCReason \<Rightarrow> bool \<times> Diag list" where
  "checkAccessor ctx accessor kind storage Reason =
     (let Diagnose = shouldDiagnoseObjCReason Reason ctx in
      if \<not> storageIsObjC storage \<and> Reason \<noteq> ExplicitlyCDecl \<and> Reason \<noteq> WitnessToObjC then
        (False,
         if Diagnose then
           [Diag (if kind = AK_Get
                  then (if storageIsVarDecl storage
                        then ''objc_getter_for_nonobjc_property''
                        else ''objc_getter_for_nonobjc_subscript'')
                  else (if storageIsVarDecl storage
                        then ''objc_setter_for_nonobjc_property''
                        else ''objc_setter_for_nonobjc_subscript'')) []]
           @ describeObjCReason accessor Reason
         else [])
      else
        (case kind of
           AK_DidSet \<Rightarrow>
             (False, if Diagnose then [Diag ''objc_observing_accessor'' []]
                                      @ describeObjCReason accessor Reason else [])
         | AK_WillSet \<Rightarrow>
             (False, if Diagnose then [Diag ''objc_observing_accessor'' []]
                                      @ describeObjCReason accessor Reason else [])
         | AK_Get \<Rightarrow> (True, [])
         | AK_Set \<Rightarrow> (True, [])
         | AK_MaterializeForSet \<Rightarrow> (False, [])
         | AK_Address \<Rightarrow>
             (False, if Diagnose then [Diag ''objc_addressor'' []]
                                      @ describeObjCReason accessor Reason else [])
         | AK_MutableAddress \<Rightarrow>
             (False, if Diagnose then [Diag ''objc_addressor'' []]
                                      @ describeObjCReason accessor Reason else [])))"

text \<open>
  The check of the result type of a \<^verbatim>\<open>FuncDecl\<close>, lines 514-531: \<^verbatim>\<open>Some False\<close>
  when the function returns false there, \<^verbatim>\<open>None\<close> when control goes on to line 533.
\<close>

definition checkResultType ::
  "ASTContext \<Rightarrow> ValueDecl \<Rightarrow> ObjCReason \<Rightarrow> fatal + (bool option \<times> Diag list)" where
  "checkResultType ctx AFD Reason =
     (let Diagnose = shouldDiagnoseObjCReason Reason ctx in
      if isaFuncDecl (declKind AFD) then
        (let ResultType = mapTypeIntoContext (getResultInterfaceType AFD) in
         if \<not> hasError ResultType \<and> \<not> isVoid ResultType \<and> \<not> isUninhabited ctx ResultType \<and>
            \<not> isRepresentableIn ctx ResultType then
           (if Diagnose then
              (case getObjCDiagnosticAttrKind Reason of
                 Inl e \<Rightarrow> Inl e
               | Inr k \<Rightarrow>
                   Inr (Some False,
                        [Diag ''objc_invalid_on_func_result_type'' [ArgAttrKind k]]
                        @ diagnoseTypeNotRepresentableInObjC ResultType
                        @ describeObjCReason AFD Reason))
            else Inr (Some False, []))
         else Inr (None, []))
      else Inr (None, []))"

text \<open>
  The check of the parameter list, lines 500-512, followed by that of the result type.
  The value of \<^verbatim>\<open>isParamListRepresentableInObjC\<close> is looked at only where diagnostics
  are suppressed; otherwise control goes on to line 514 whatever it is.
\<close>

definition checkParamsAndResult ::
  "ASTContext \<Rightarrow> ValueDecl \<Rightarrow> ObjCReason \<Rightarrow> fatal + (bool option \<times> Diag list)" where
  "checkParamsAndResult ctx AFD Reason =
     (let Diagnose = shouldDiagnoseObjCReason Reason ctx;
          isSpecialInit = (isaConstructorDecl (declKind AFD) \<and>
                           isObjCZeroParameterWithLongSelector AFD)
      in
      if isSpecialInit then checkResultType ctx AFD Reason
      else
        (case isParamListRepresentableInObjC ctx AFD (getParameters AFD) Reason of
           Inl e \<Rightarrow> Inl e
         | Inr (ok, ds) \<Rightarrow>
             (if \<not> ok \<and> \<not> Diagnose then Inr (Some False, ds)
              else
                (case checkResultType ctx AFD Reason of
                   Inl e \<Rightarrow> Inl e
                 | Inr (r, ds') \<Rightarrow> Inr (r, ds @ ds')))))"

text \<open>
  \<^verbatim>\<open>isRepresentableInObjC\<close> for a function, lines 413-531: \<^verbatim>\<open>Some b\<close> when the
  function returns \<^verbatim>\<open>b\<close> before line 533, \<^verbatim>\<open>None\<close> when control reaches the
  selection of the error convention. The diagnostic for an operator is emitted
  whatever the reason.
\<close>

definition representableBeforeThrows ::
  "ASTContext \<Rightarrow> ValueDecl \<Rightarrow> ObjCReason \<Rightarrow> fatal + (bool option \<times> Diag list)" where
  "representableBeforeThrows ctx AFD Reason =
     (let Diagnose = shouldDiagnoseObjCReason Reason ctx in
      case checkObjCInForeignClassContext ctx AFD Reason of
        Inl e \<Rightarrow> Inl e
      | Inr (inForeign, ds1) \<Rightarrow>
          if inForeign then Inr (Some False, ds1)
          else
            (case checkObjCWithGenericParams ctx AFD Reason of
               Inl e \<Rightarrow> Inl e
             | Inr (withGeneric, ds2) \<Rightarrow>
                 if withGeneric then Inr (Some False, ds1 @ ds2)
                 else
                   (case checkObjCInExtensionContext AFD Diagnose of
                      (inExtension, ds3) \<Rightarrow>
                        if inExtension then Inr (Some False, ds1 @ ds2 @ ds3)
                        else if isOperator AFD then
                          Inr (Some False,
                               ds1 @ ds2 @ ds3 @
                               [Diag (case getDeclContext AFD of
                                        ProtocolContext PD \<Rightarrow> ''objc_operator_proto''
                                      | _ \<Rightarrow> ''objc_operator'') []])
                        else
                          (case declKind AFD of
                             AccessorDecl kind storage \<Rightarrow>
                               (case checkAccessor ctx AFD kind storage Reason of
                                  (b, ds4) \<Rightarrow> Inr (Some b, ds1 @ ds2 @ ds3 @ ds4))
                           | _ \<Rightarrow>
                               (case checkParamsAndResult ctx AFD Reason of
                                  Inl e \<Rightarrow> Inl e
                                | Inr (r, ds4) \<Rightarrow> Inr (r, ds1 @ ds2 @ ds3 @ ds4))))))"

section \<open>The error convention of a throwing function\<close>

text \<open>
  The selection of the kind, lines 534-612: \<^verbatim>\<open>None\<close> when the function returns false
  there, otherwise the kind and the canonical type of the error result
  (\<^verbatim>\<open>errorResultType\<close>, null unless the kind is \<^verbatim>\<open>ZeroResult\<close>). The diagnostic
  \<^verbatim>\<open>broken_bool\<close> is emitted whatever the reason.
\<close>

definition selectErrorKind ::
  "ASTContext \<Rightarrow> ValueDecl \<Rightarrow> ObjCReason \<Rightarrow> fatal + ((Kind \<times> Type option) option \<times> Diag list)" where
  "selectErrorKind ctx AFD Reason =
     (let Diagnose = shouldDiagnoseObjCReason Reason ctx in
      if isaFuncDecl (declKind AFD) then
        (let resultType = getResultInterfaceType AFD in
         if isVoid resultType then
           (case (case getObjCBoolDecl ctx of
                    None \<Rightarrow> getBoolDecl ctx
                  | Some d \<Rightarrow> Some d) of
              None \<Rightarrow> Inr (None, [Diag ''broken_bool'' []])
            | Some boolDecl \<Rightarrow>
                Inr (Some (ZeroResult, Some (getCanonicalType (getDeclaredType boolDecl))), []))
         else if getOptionalObjectType resultType = None \<and>
                 isBridgedToObjectiveCClass ctx resultType then
           Inr (Some (NilResult, None), [])
         else if (case getOptionalObjectType resultType of
                    None \<Rightarrow> False
                  | Some optOptionalType \<Rightarrow> isBridgedToObjectiveCClass ctx optOptionalType) then
           (if Diagnose then
              (case getObjCDiagnosticAttrKind Reason of
                 Inl e \<Rightarrow> Inl e
               | Inr k \<Rightarrow>
                   Inr (None,
                        [Diag ''objc_invalid_on_throwing_optional_result''
                           [ArgAttrKind k, ArgType resultType]]
                        @ describeObjCReason AFD Reason))
            else Inr (None, []))
         else
           (if Diagnose then
              (case getObjCDiagnosticAttrKind Reason of
                 Inl e \<Rightarrow> Inl e
               | Inr k \<Rightarrow>
                   Inr (None,
                        [Diag ''objc_invalid_on_throwing_result''
                           [ArgAttrKind k, ArgType resultType]]
                        @ describeObjCReason AFD Reason))
            else Inr (None, [])))
      else
        (case declKind AFD of
           ConstructorDecl failability \<Rightarrow>
             (if failability \<noteq> OTK_None then
                (if Diagnose then
                   (case getObjCDiagnosticAttrKind Reason of
                      Inl e \<Rightarrow> Inl e
                    | Inr k \<Rightarrow>
                        Inr (None,
                             [Diag ''objc_invalid_on_failing_init'' [ArgAttrKind k]]
                             @ describeObjCReason AFD Reason))
                 else Inr (None, []))
              else Inr (Some (NilResult, None), []))
         | _ \<Rightarrow> Inl BadCast))"

text \<open>
  \<^verbatim>\<open>getObjectiveCNominalType\<close>, lines 861-886, and \<^verbatim>\<open>getNSErrorType\<close>, lines
  927-932: the first nominal type declaration of that name in the loaded module. The
  type checker caches the answer; the modules do not change, so the cache holds what the
  lookup gives, and it is not modelled.
\<close>

fun firstNominal :: "LookupResult list \<Rightarrow> Type option" where
  "firstNominal [] = None"
| "firstNominal (NominalResult nominal # decls) = Some (getDeclaredType nominal)"
| "firstNominal (OtherResult # decls) = firstNominal decls"

definition getObjectiveCNominalType :: "ASTContext \<Rightarrow> string \<Rightarrow> string \<Rightarrow> Type option" where
  "getObjectiveCNominalType ctx ModuleName TypeName =
     (case map_of (loadedModules ctx) ModuleName of
        None \<Rightarrow> None
      | Some module \<Rightarrow> firstNominal (map snd (filter (\<lambda>m. fst m = TypeName) module)))"

definition getNSErrorType :: "ASTContext \<Rightarrow> Type option" where
  "getNSErrorType ctx = getObjectiveCNominalType ctx ''Foundation'' ''NSError''"

text \<open>
  The type of the error parameter, lines 614-624 and 690-692:
  \<^verbatim>\<open>AutoreleasingUnsafeMutablePointer<NSError?>?\<close>, or null without \<^verbatim>\<open>NSError\<close>.
\<close>

definition errorParameterTypeOf :: "ASTContext \<Rightarrow> Type option" where
  "errorParameterTypeOf ctx =
     (case getNSErrorType ctx of
        None \<Rightarrow> None
      | Some errorParameterType \<Rightarrow>
          Some (getCanonicalType
                  (OptionalType
                     (BoundGenericType (getAutoreleasingUnsafeMutablePointerDecl ctx)
                        [OptionalType errorParameterType]))))"

definition Id_error :: string where
  "Id_error = ''error''"

text \<open>
  The loop of lines 635-651 over the selector pieces, \<^verbatim>\<open>i\<close> running down from the
  number of pieces: the index found, or \<^verbatim>\<open>None\<close>.
\<close>

fun findErrorSelectorPiece :: "ASTContext \<Rightarrow> string list \<Rightarrow> nat \<Rightarrow> nat option" where
  "findErrorSelectorPiece ctx selectorPieces 0 = None"
| "findErrorSelectorPiece ctx selectorPieces (Suc j) =
     (let i = Suc j; piece = selectorPieces ! (i - 1) in
      if piece = Id_error then Some (i - 1)
      else if i = 1 \<and> getLastWord ctx piece = ''Error'' then Some (i - 1)
      else findErrorSelectorPiece ctx selectorPieces j)"

text \<open>
  The loop of lines 671-686, from \<^verbatim>\<open>errorParameterIndex\<close> down: trailing parameters
  of function type, looked at through one level of optionality, are skipped. The index
  never exceeds the number of parameters, so \<^verbatim>\<open>paramList->get\<close> stays in range.
\<close>

fun skipTrailingClosures :: "ParamDecl list \<Rightarrow> nat \<Rightarrow> nat" where
  "skipTrailingClosures paramList 0 = 0"
| "skipTrailingClosures paramList (Suc j) =
     (let errorParameterIndex = Suc j;
          type = getRValueType (getType (paramList ! (errorParameterIndex - 1)));
          type = (case getOptionalObjectType type of
                    Some objectType \<Rightarrow> objectType
                  | None \<Rightarrow> type)
      in
      if \<not> isAnyFunctionType type then errorParameterIndex
      else skipTrailingClosures paramList j)"

text \<open>Lines 657-687: the index when the selector gave none.\<close>

definition defaultErrorParameterIndex :: "ValueDecl \<Rightarrow> nat" where
  "defaultErrorParameterIndex AFD =
     (let paramList = getParameters AFD;
          errorParameterIndex = length paramList;
          errorParameterIndex =
            (if isaConstructorDecl (declKind AFD) \<and> isObjCZeroParameterWithLongSelector AFD
             then errorParameterIndex - 1 else errorParameterIndex)
      in skipTrailingClosures paramList errorParameterIndex)"

text \<open>Lines 626-687: the parameter index at which the error goes.\<close>

definition determineErrorParameterIndex :: "ASTContext \<Rightarrow> ValueDecl \<Rightarrow> nat" where
  "determineErrorParameterIndex ctx AFD =
     (case objcAttr AFD of
        None \<Rightarrow> defaultErrorParameterIndex AFD
      | Some objc \<Rightarrow>
          (case getName objc of
             None \<Rightarrow> defaultErrorParameterIndex AFD
           | Some objcName \<Rightarrow>
               (let selectorPieces = getSelectorPieces objcName in
                case findErrorSelectorPiece ctx selectorPieces (length selectorPieces) of
                  Some errorParameterIndex \<Rightarrow> errorParameterIndex
                | None \<Rightarrow> defaultErrorParameterIndex AFD)))"

text \<open>The switch of lines 693-735 that forms the convention.\<close>

fun formErrorConvention ::
  "Kind \<Rightarrow> nat \<Rightarrow> Type option \<Rightarrow> Type option \<Rightarrow> ForeignErrorConvention" where
  "formErrorConvention ZeroResult errorParameterIndex canErrorParameterType errorResultType =
     getZeroResult errorParameterIndex IsNotOwned IsNotReplaced
       canErrorParameterType errorResultType"
| "formErrorConvention NonZeroResult errorParameterIndex canErrorParameterType errorResultType =
     getNonZeroResult errorParameterIndex IsNotOwned IsNotReplaced
       canErrorParameterType errorResultType"
| "formErrorConvention ZeroPreservedResult errorParameterIndex canErrorParameterType
     errorResultType =
     getZeroPreservedResult errorParameterIndex IsNotOwned IsNotReplaced canErrorParameterType"
| "formErrorConvention NilResult errorParameterIndex canErrorParameterType errorResultType =
     getNilResult errorParameterIndex IsNotOwned IsNotReplaced canErrorParameterType"
| "formErrorConvention NonNilError errorParameterIndex canErrorParameterType errorResultType =
     getNilResult errorParameterIndex IsNotOwned IsNotReplaced canErrorParameterType"

text \<open>
  \<^verbatim>\<open>TypeChecker::isRepresentableInObjC\<close> for a function, lines 413-739: the value
  returned, the error convention left in the out-parameter (cleared on entry) and the
  diagnostics emitted.
\<close>

definition isRepresentableInObjC ::
  "ASTContext \<Rightarrow> ValueDecl \<Rightarrow> ObjCReason
   \<Rightarrow> fatal + (bool \<times> ForeignErrorConvention option \<times> Diag list)" where
  "isRepresentableInObjC ctx AFD Reason =
     (case representableBeforeThrows ctx AFD Reason of
        Inl e \<Rightarrow> Inl e
      | Inr (Some b, ds) \<Rightarrow> Inr (b, None, ds)
      | Inr (None, ds) \<Rightarrow>
          (if hasThrows AFD then
             (case selectErrorKind ctx AFD Reason of
                Inl e \<Rightarrow> Inl e
              | Inr (None, ds') \<Rightarrow> Inr (False, None, ds @ ds')
              | Inr (Some (kind, errorResultType), ds') \<Rightarrow>
                  Inr (True,
                       Some (formErrorConvention kind (determineErrorParameterIndex ctx AFD)
                               (errorParameterTypeOf ctx) errorResultType),
                       ds @ ds'))
           else Inr (True, None, ds)))"

section \<open>Inferring the Objective-C name and marking a declaration\<close>

text \<open>The local function \<^verbatim>\<open>setObjCName\<close> of \<^verbatim>\<open>inferObjCName\<close>, lines 1197-1207.\<close>

definition setObjCName :: "ValueDecl \<Rightarrow> ObjCSelector \<Rightarrow> ValueDecl" where
  "setObjCName decl selector =
     (case objcAttr decl of
        Some attr \<Rightarrow>
          decl\<lparr>objcAttr := Some (attr\<lparr>getName := Some selector, isNameImplicit := True\<rparr>)\<rparr>
      | None \<Rightarrow>
          decl\<lparr>objcAttr := Some \<lparr>getName = Some selector, isNameImplicit = True,
                                  isSwift3Inferred = False\<rparr>\<rparr>)"

text \<open>
  The part of \<^verbatim>\<open>inferObjCName\<close> shared by the method and the property branch, lines
  1217-1241 and 1249-1272: the declaration takes the name of what it overrides, and a
  different name that the user wrote is diagnosed first.
\<close>

definition adoptOverriddenName ::
  "ValueDecl \<Rightarrow> ObjCSelector \<Rightarrow> string \<Rightarrow> ValueDecl \<times> Diag list" where
  "adoptOverriddenName decl overriddenSelector mismatch =
     (case objcAttr decl of
        None \<Rightarrow> (setObjCName decl overriddenSelector, [])
      | Some attr \<Rightarrow>
          (case getName attr of
             None \<Rightarrow> (setObjCName decl overriddenSelector, [])
           | Some name \<Rightarrow>
               (if name \<noteq> overriddenSelector then
                  (setObjCName decl overriddenSelector,
                   if \<not> isNameImplicit attr then
                     [Diag mismatch [ArgSelector name, ArgSelector overriddenSelector],
                      Diag ''overridden_here'' []]
                   else [])
                else (decl, []))))"

text \<open>
  The loop of lines 1285-1319 over the witnessed requirements: the name of the first
  requirement, and the diagnostics of an ambiguity, which ends the loop.
\<close>

fun witnessLoop :: "ObjCSelector option \<Rightarrow> ObjCSelector list \<Rightarrow> ObjCSelector option \<times> Diag list" where
  "witnessLoop requirementObjCName [] = (requirementObjCName, [])"
| "witnessLoop None (req # rest) = witnessLoop (Some req) rest"
| "witnessLoop (Some firstName) (req # rest) =
     (if firstName \<noteq> req then
        (Some firstName,
         [Diag ''objc_ambiguous_inference'' [ArgSelector firstName, ArgSelector req],
          Diag ''objc_ambiguous_inference_candidate'' [ArgSelector firstName],
          Diag ''objc_ambiguous_inference_candidate'' [ArgSelector req],
          Diag ''req_near_match_nonobjc'' []])
      else witnessLoop (Some firstName) rest)"

text \<open>\<^verbatim>\<open>inferObjCName\<close>, lines 1189-1325.\<close>

definition inferObjCName :: "ValueDecl \<Rightarrow> fatal + (ValueDecl \<times> Diag list)" where
  "inferObjCName decl =
     (if declKind decl = DestructorDecl then Inr (decl, [])
      else if \<not> isObjC decl then Inl (AssertionFailed ''Must be known to be @objc'')
      else
        (let fromWitnesses =
               (if (case objcAttr decl of
                      None \<Rightarrow> False
                    | Some attr \<Rightarrow> getName attr \<noteq> None) then Inr (decl, [])
                else
                  (case witnessLoop None (witnessedObjCRequirements decl) of
                     (Some requirementObjCName, ds) \<Rightarrow>
                       Inr (setObjCName decl requirementObjCName, ds)
                   | (None, ds) \<Rightarrow> Inr (decl, ds)))
         in
         case getOverriddenDecl decl of
           None \<Rightarrow> fromWitnesses
         | Some overridden \<Rightarrow>
             (if overriddenIsObjC overridden then
                (case overriddenKind overridden of
                   OverriddenFunc \<Rightarrow>
                     Inr (adoptOverriddenName decl (overriddenObjCSelector overridden)
                            ''objc_override_method_selector_mismatch'')
                 | OverriddenVar \<Rightarrow>
                     Inr (adoptOverriddenName decl
                            (ObjCSelector 0 [overriddenObjCPropertyName overridden])
                            ''objc_override_property_name_mismatch'')
                 | OverriddenOther \<Rightarrow> fromWitnesses)
              else fromWitnesses)))"

text \<open>
  Modelled from the spec: \<^verbatim>\<open>AbstractFunctionDecl::getObjCSelector\<close> is defined
  outside the sources. Section 4.5: the finalizer records the computed name on the
  declaration; the computed name is the name that the attribute records, and the
  selector derived from the Swift name when the attribute records none.
\<close>

definition getObjCSelector :: "ValueDecl \<Rightarrow> ObjCSelector" where
  "getObjCSelector decl =
     (case objcAttr decl of
        None \<Rightarrow> defaultObjCSelector decl
      | Some attr \<Rightarrow>
          (case getName attr of
             None \<Rightarrow> defaultObjCSelector decl
           | Some name \<Rightarrow> name))"

text \<open>The local function \<^verbatim>\<open>isForbiddenSelector\<close> of \<^verbatim>\<open>markAsObjC\<close>, lines 1397-1422.\<close>

definition isForbiddenSelector :: "ASTContext \<Rightarrow> ObjCSelector \<Rightarrow> string option" where
  "isForbiddenSelector ctx sel =
     (case getSelectorPieces sel of
        [] \<Rightarrow> None
      | front # pieces \<Rightarrow>
          (if getNumArgs sel = 0 then
             (if front = ''load'' \<or> front = ''alloc'' then
                Some ''objc_class_method_not_permitted''
              else if front = ''initialize'' then
                (if isSwiftVersion3 (LangOpts ctx) then
                   Some ''objc_class_method_not_permitted_swift3_compat_warning''
                 else Some ''objc_class_method_not_permitted'')
              else None)
           else if getNumArgs sel = 1 then
             (if front = ''allocWithZone'' then Some ''objc_class_method_not_permitted''
              else None)
           else None))"

text \<open>
  The part of \<^verbatim>\<open>markAsObjC\<close> that attaches the foreign error convention, lines
  1366-1386 (a method of a class) and 1434-1440: an override that throws adopts the
  convention of the method it overrides when that method has one.
\<close>

definition attachErrorConvention ::
  "ValueDecl \<Rightarrow> ForeignErrorConvention option \<Rightarrow> bool \<Rightarrow> fatal + ValueDecl" where
  "attachErrorConvention method errorConvention inClass =
     (if \<not> hasThrows method then Inr method
      else
        (let errorConvention =
               (if inClass then
                  (case getOverriddenDecl method of
                     None \<Rightarrow> errorConvention
                   | Some baseMethod \<Rightarrow>
                       (case overriddenForeignErrorConvention baseMethod of
                          Some baseErrorConvention \<Rightarrow> Some baseErrorConvention
                        | None \<Rightarrow> errorConvention))
                else errorConvention)
         in
         case errorConvention of
           None \<Rightarrow> Inl (AssertionFailed ''Missing error convention'')
         | Some c \<Rightarrow> Inr (method\<lparr>getForeignErrorConvention := Some c\<rparr>)))"

text \<open>
  The handling of Swift 3 inference at the end of \<^verbatim>\<open>markAsObjC\<close>, lines 1452-1476.
\<close>

definition markSwift3Inferred :: "ASTContext \<Rightarrow> ValueDecl \<Rightarrow> ValueDecl \<times> Diag list" where
  "markSwift3Inferred ctx D =
     (let isGetterOrSetter =
            (case declKind D of
               AccessorDecl kind storage \<Rightarrow> kind = AK_Get \<or> kind = AK_Set
             | _ \<Rightarrow> False);
          ds = (if WarnSwift3ObjCInference (LangOpts ctx) = WarnComplete \<and> \<not> isGetterOrSetter
                then [Diag ''objc_inference_swift3_objc_derived'' [],
                      Diag ''objc_inference_swift3_addobjc'' [],
                      Diag ''objc_inference_swift3_addnonobjc'' []]
                else []);
          attr = (case objcAttr D of
                    None \<Rightarrow> \<lparr>getName = None, isNameImplicit = False, isSwift3Inferred = False\<rparr>
                  | Some attr \<Rightarrow> attr)
      in (D\<lparr>objcAttr := Some (attr\<lparr>isSwift3Inferred := True\<rparr>)\<rparr>, ds))"

text \<open>
  The check of \<^verbatim>\<open>@nonobjc\<close> in \<^verbatim>\<open>markAsObjC\<close>, lines 1347-1355: the
  attribute is diagnosed and marked invalid, and a reason that is not diagnosed is
  replaced by \<^verbatim>\<open>ImplicitlyObjC\<close> from there on.
\<close>

definition diagnoseNonObjC ::
  "ASTContext \<Rightarrow> ValueDecl \<Rightarrow> ObjCReason \<Rightarrow> fatal + (ValueDecl \<times> ObjCReason \<times> Diag list)" where
  "diagnoseNonObjC ctx D isObjC0 =
     (if nonObjCAttrValid D = Some True then
        (let reason = (if \<not> shouldDiagnoseObjCReason isObjC0 ctx then ImplicitlyObjC
                       else isObjC0)
         in
         case getObjCDiagnosticAttrKind reason of
           Inl e \<Rightarrow> Inl e
         | Inr k \<Rightarrow>
             Inr (D\<lparr>nonObjCAttrValid := Some False\<rparr>, reason,
                  [Diag ''nonobjc_not_allowed'' [ArgAttrKind k]]))
      else Inr (D, isObjC0, []))"

text \<open>
  Lines 1363-1440 of \<^verbatim>\<open>markAsObjC\<close>: a method of a class gets its error convention
  and its name, and a class method with a forbidden selector is diagnosed; a property of
  a class gets its name; a function outside a class gets its error convention.
\<close>

definition recordObjCDecl ::
  "ASTContext \<Rightarrow> ValueDecl \<Rightarrow> ForeignErrorConvention option \<Rightarrow> fatal + (ValueDecl \<times> Diag list)" where
  "recordObjCDecl ctx D errorConvention =
     (if contextClass (getDeclContext D) \<noteq> None then
        (if isaAbstractFunctionDecl (declKind D) then
           (case attachErrorConvention D errorConvention True of
              Inl e \<Rightarrow> Inl e
            | Inr method \<Rightarrow>
                (case inferObjCName method of
                   Inl e \<Rightarrow> Inl e
                 | Inr (method', ds) \<Rightarrow>
                     Inr (method',
                          ds @ (if \<not> isInstanceMember method' then
                                  (case isForbiddenSelector ctx (getObjCSelector method') of
                                     Some diagID \<Rightarrow>
                                       [Diag diagID [ArgSelector (getObjCSelector method')]]
                                   | None \<Rightarrow> [])
                                else []))))
         else if declKind D = VarDecl then inferObjCName D
         else Inr (D, []))
      else if isaAbstractFunctionDecl (declKind D) then
        (case attachErrorConvention D errorConvention False of
           Inl e \<Rightarrow> Inl e
         | Inr method \<Rightarrow> Inr (method, []))
      else Inr (D, []))"

text \<open>
  \<^verbatim>\<open>markAsObjC\<close>, lines 1332-1477, on the declaration's own fields: the flag, the
  attributes, the foreign error convention and the name. The tables that it also fills
  (the bridging functions checked once, the methods recorded in the class and in the
  source file) belong to other components and are not modelled.
\<close>

definition markAsObjC ::
  "ASTContext \<Rightarrow> ValueDecl \<Rightarrow> ObjCReason option \<Rightarrow> ForeignErrorConvention option
   \<Rightarrow> fatal + (ValueDecl \<times> Diag list)" where
  "markAsObjC ctx D0 isObjC0 errorConvention =
     (let D = D0\<lparr>isObjC := (isObjC0 \<noteq> None)\<rparr> in
      case isObjC0 of
        None \<Rightarrow>
          Inr (D\<lparr>dynamicAttrValid := map_option (\<lambda>valid. False) (dynamicAttrValid D)\<rparr>, [])
      | Some reason0 \<Rightarrow>
          (case diagnoseNonObjC ctx D reason0 of
             Inl e \<Rightarrow> Inl e
           | Inr (D1, reason, ds1) \<Rightarrow>
               (case recordObjCDecl ctx D1 errorConvention of
                  Inl e \<Rightarrow> Inl e
                | Inr (D2, ds2) \<Rightarrow>
                    (if reason = MemberOfObjCSubclass then
                       (case markSwift3Inferred ctx D2 of
                          (D3, ds3) \<Rightarrow> Inr (D3, ds1 @ ds2 @ ds3))
                     else Inr (D2, ds1 @ ds2)))))"

section \<open>Sample inputs\<close>

text \<open>
  A context and declarations on which the results below are evaluated. The sample oracle
  classifies \<^verbatim>\<open>Int\<close> as trivial, an \<^verbatim>\<open>@objc\<close> class and a function type that
  does not throw as an object, \<^verbatim>\<open>String\<close> as bridged, the optionals of the last three
  likewise, and nothing else.
\<close>

fun sampleRepresentable :: "Type \<Rightarrow> ForeignRepresentableKind" where
  "sampleRepresentable (ClassType CD) = (if classIsObjC CD then FRK_Object else FRK_None)"
| "sampleRepresentable (StructType n) =
     (if n = ''Int'' then FRK_Trivial else if n = ''String'' then FRK_Bridged else FRK_None)"
| "sampleRepresentable (OptionalType (ClassType CD)) =
     (if classIsObjC CD then FRK_Object else FRK_None)"
| "sampleRepresentable (OptionalType (StructType n)) =
     (if n = ''String'' then FRK_Bridged else FRK_None)"
| "sampleRepresentable (FunctionType params result throws) =
     (if throws then FRK_None else FRK_Object)"
| "sampleRepresentable (OptionalType (FunctionType params result throws)) =
     (if throws then FRK_None else FRK_Object)"
| "sampleRepresentable T = FRK_None"

text \<open>
  A sample \<^verbatim>\<open>getLastWord\<close>: the part of the string from its last upper-case letter
  on, and the whole string when it has none.
\<close>

definition isUpperCase :: "char \<Rightarrow> bool" where
  "isUpperCase c = (65 \<le> (of_char c :: nat) \<and> (of_char c :: nat) \<le> 90)"

fun sampleLastWord :: "string \<Rightarrow> string" where
  "sampleLastWord [] = []"
| "sampleLastWord (c # cs) =
     (if \<exists>d \<in> set cs. isUpperCase d then sampleLastWord cs else c # cs)"

definition sampleNSObject :: ClassDecl where
  "sampleNSObject =
     \<lparr>className = ''NSObject'', classIsObjC = True, getForeignClassKind = Normal,
      classHasClangNode = True\<rparr>"

definition sampleObjCBool :: NominalTypeDecl where
  "sampleObjCBool = \<lparr>nominalName = ''ObjCBool'', getDeclaredType = StructType ''ObjCBool''\<rparr>"

definition sampleBool :: NominalTypeDecl where
  "sampleBool = \<lparr>nominalName = ''Bool'', getDeclaredType = StructType ''Bool''\<rparr>"

definition sampleContext :: ASTContext where
  "sampleContext =
     \<lparr>LangOpts = \<lparr>EnableSwift3ObjCInference = False, EnableObjCInterop = True,
                  EnableObjCAttrRequiresFoundation = True, WarnSwift3ObjCInference = WarnNone,
                  isSwiftVersion3 = False\<rparr>,
      getObjCBoolDecl = Some sampleObjCBool,
      getBoolDecl = Some sampleBool,
      getAutoreleasingUnsafeMutablePointerDecl = ''AutoreleasingUnsafeMutablePointer'',
      loadedModules =
        [(''Foundation'',
          [(''NSError'',
            NominalResult \<lparr>nominalName = ''NSError'',
                            getDeclaredType =
                              ClassType (sampleNSObject\<lparr>className := ''NSError''\<rparr>)\<rparr>)])],
      getForeignRepresentableIn = sampleRepresentable,
      isUninhabited = (\<lambda>T. T = EnumType ''Never''),
      getLastWord = sampleLastWord\<rparr>"

definition sampleParam :: "string \<Rightarrow> Type \<Rightarrow> ParamDecl" where
  "sampleParam name T =
     \<lparr>getArgumentName = name, hasType = True, getType = T, isVariadic = False,
      isInOut = False\<rparr>"

text \<open>
  A method \<^verbatim>\<open>func f()\<close> of a class deriving from \<^verbatim>\<open>NSObject\<close>; the samples below
  change its fields.
\<close>

definition sampleMethod :: ValueDecl where
  "sampleMethod =
     \<lparr>declKind = FuncDecl,
      getDeclContext = ClassContext (sampleNSObject\<lparr>className := ''Widget''\<rparr>),
      getParameters = [],
      hasThrows = False,
      getResultInterfaceType = TupleType [],
      getGenericParams = False,
      isOperator = False,
      isInstanceMember = True,
      getOverriddenDecl = None,
      objcAttr = None,
      isObjC = False,
      dynamicAttrValid = None,
      nonObjCAttrValid = None,
      getForeignErrorConvention = None,
      witnessedObjCRequirements = [],
      defaultObjCSelector = ObjCSelector 0 [''f'']\<rparr>"

text \<open>A method with one parameter of tuple type, which is not representable.\<close>

definition sampleTupleParamMethod :: ValueDecl where
  "sampleTupleParamMethod =
     sampleMethod\<lparr>getParameters :=
       [sampleParam ''x'' (TupleType [StructType ''Int'', StructType ''Int''])]\<rparr>"

text \<open>A throwing method that returns \<^verbatim>\<open>NSObject?\<close>.\<close>

definition sampleOptionalResultMethod :: ValueDecl where
  "sampleOptionalResultMethod =
     sampleMethod\<lparr>hasThrows := True,
                  getResultInterfaceType := OptionalType (ClassType sampleNSObject)\<rparr>"

text \<open>A context whose standard library has neither \<^verbatim>\<open>ObjCBool\<close> nor \<^verbatim>\<open>Bool\<close>.\<close>

definition sampleContextWithoutBool :: ASTContext where
  "sampleContextWithoutBool = sampleContext\<lparr>getObjCBoolDecl := None, getBoolDecl := None\<rparr>"

definition sampleThrowingMethod :: ValueDecl where
  "sampleThrowingMethod = sampleMethod\<lparr>hasThrows := True\<rparr>"

text \<open>
  The initializer \<^verbatim>\<open>init(malice: ()) throws\<close>, and a throwing method whose last
  parameter is an optional closure, with an \<^verbatim>\<open>@objc\<close> attribute that gives no name.
\<close>

definition sampleSpecialInit :: ValueDecl where
  "sampleSpecialInit =
     sampleMethod\<lparr>declKind := ConstructorDecl OTK_None, hasThrows := True,
                  getParameters := [sampleParam ''malice'' (TupleType [])]\<rparr>"

definition sampleClosureMethod :: ValueDecl where
  "sampleClosureMethod =
     sampleMethod\<lparr>hasThrows := True,
                  getParameters :=
                    [sampleParam ''x'' (StructType ''Int''),
                     sampleParam ''completion''
                       (OptionalType (FunctionType [] (TupleType []) False))],
                  objcAttr := Some \<lparr>getName = None, isNameImplicit = False,
                                     isSwift3Inferred = False\<rparr>\<rparr>"

text \<open>
  Throwing methods with an explicit selector: \<^verbatim>\<open>doThing:completion:withError:\<close> on
  a method with a trailing closure, and \<^verbatim>\<open>doThingAndReturnError:with:\<close>.
\<close>

definition sampleNamedMethod :: ValueDecl where
  "sampleNamedMethod =
     sampleMethod\<lparr>hasThrows := True,
                  getParameters :=
                    [sampleParam ''x'' (StructType ''Int''),
                     sampleParam ''completion'' (FunctionType [] (TupleType []) False)],
                  objcAttr := Some \<lparr>getName =
                                       Some (ObjCSelector 3
                                               [''doThing'', ''completion'', ''withError'']),
                                     isNameImplicit = False, isSwift3Inferred = False\<rparr>\<rparr>"

definition sampleErrorFirstMethod :: ValueDecl where
  "sampleErrorFirstMethod =
     sampleMethod\<lparr>hasThrows := True,
                  getParameters :=
                    [sampleParam ''x'' (StructType ''Int'')],
                  objcAttr := Some \<lparr>getName =
                                       Some (ObjCSelector 2 [''doThingAndReturnError'', ''with'']),
                                     isNameImplicit = False, isSwift3Inferred = False\<rparr>\<rparr>"

text \<open>
  An \<^verbatim>\<open>@objc\<close> method and an override of it; a method imported with the convention
  \<^verbatim>\<open>NonZeroResult\<close> and a throwing override of that.
\<close>

definition sampleBaseMethod :: OverriddenDecl where
  "sampleBaseMethod =
     \<lparr>overriddenKind = OverriddenFunc, overriddenIsObjC = True,
      overriddenObjCSelector = ObjCSelector 1 [''doPerform''],
      overriddenObjCPropertyName = [],
      overriddenForeignErrorConvention = None\<rparr>"

definition sampleOverride :: ValueDecl where
  "sampleOverride =
     sampleMethod\<lparr>getParameters := [sampleParam ''value'' (StructType ''Int'')],
                  getOverriddenDecl := Some sampleBaseMethod,
                  isObjC := True,
                  defaultObjCSelector := ObjCSelector 1 [''performWithValue'']\<rparr>"

definition sampleImportedBase :: OverriddenDecl where
  "sampleImportedBase =
     sampleBaseMethod\<lparr>overriddenObjCSelector := ObjCSelector 1 [''runAndReturnError''],
       overriddenForeignErrorConvention :=
         Some (getNonZeroResult 0 IsNotOwned IsNotReplaced (errorParameterTypeOf sampleContext)
                 (Some (StructType ''Int32'')))\<rparr>"

definition sampleThrowingOverride :: ValueDecl where
  "sampleThrowingOverride =
     sampleMethod\<lparr>hasThrows := True, getOverriddenDecl := Some sampleImportedBase\<rparr>"

section \<open>Notions used to state the properties\<close>

text \<open>
  A parameter whose type, looked at through one level of optionality, is a function
  type, and the number of such parameters at the end of a parameter list.
\<close>

definition isFunctionTypedParam :: "ParamDecl \<Rightarrow> bool" where
  "isFunctionTypedParam P =
     isAnyFunctionType (case getOptionalObjectType (getType P) of
                          Some T \<Rightarrow> T
                        | None \<Rightarrow> getType P)"

definition trailingFunctionTyped :: "ParamDecl list \<Rightarrow> nat" where
  "trailingFunctionTyped PL = length (takeWhile isFunctionTypedParam (rev PL))"

section \<open>Facts used to evaluate the model\<close>

lemmas sample_defs =
  sampleContext_def sampleMethod_def sampleParam_def sampleNSObject_def
  sampleObjCBool_def sampleBool_def

lemmas check_defs =
  isRepresentableInObjC_def representableBeforeThrows_def checkObjCInForeignClassContext_def
  checkObjCWithGenericParams_def checkObjCInExtensionContext_def checkParamsAndResult_def
  checkResultType_def checkAccessor_def isParamListRepresentableInObjC_def isRepresentableIn_def
  isReplacedErrorParameter_def diagnoseFunctionParamNotRepresentable_def describeObjCReason_def
  isObjCZeroParameterWithLongSelector_def selectErrorKind_def isBridgedToObjectiveCClass_def
  determineErrorParameterIndex_def defaultErrorParameterIndex_def errorParameterTypeOf_def
  getNSErrorType_def getObjectiveCNominalType_def getCanonicalType_def getRValueType_def
  getZeroResult_def getNonZeroResult_def getZeroPreservedResult_def getNilResult_def

section \<open>The parameter list: variadic and in-out parameters\<close>

text \<open>A reason that is diagnosed has a diagnostic kind.\<close>

lemma shouldDiagnose_attrKind:
  "shouldDiagnoseObjCReason Reason ctx \<Longrightarrow>
   getObjCDiagnosticAttrKind Reason = Inr (AttrKindOf Reason)"
  by (cases Reason) simp_all

lemma diagnoseFunctionParam_total:
  "\<exists>ds. diagnoseFunctionParamNotRepresentable ctx AFD n i P Reason = Inr ds"
  by (cases "shouldDiagnoseObjCReason Reason ctx")
     (simp_all add: diagnoseFunctionParamNotRepresentable_def shouldDiagnose_attrKind)

lemma paramLoop_total:
  "\<exists>b ds'. paramLoop ctx AFD Reason n i ok ds PL = Inr (b, ds')"
proof (induction PL arbitrary: i ok ds)
  case Nil
  show ?case by simp
next
  case (Cons p PL)
  obtain dp where dp: "diagnoseFunctionParamNotRepresentable ctx AFD n i p Reason = Inr dp"
    using diagnoseFunctionParam_total by blast
  show ?case
  proof (cases "shouldDiagnoseObjCReason Reason ctx")
    case True
    then show ?thesis
      using Cons.IH dp by (auto simp: shouldDiagnose_attrKind Let_def)
  next
    case False
    then show ?thesis
      using Cons.IH by (auto simp: Let_def)
  qed
qed

lemma paramLoop_silent:
  "\<not> shouldDiagnoseObjCReason Reason ctx \<Longrightarrow>
   paramLoop ctx AFD Reason n i ok ds PL = Inr (b, ds') \<Longrightarrow> ds' = ds"
proof (induction PL arbitrary: i)
  case Nil
  then show ?case by simp
next
  case (Cons p PL)
  then show ?case
    by (auto simp: Let_def split: if_splits)
qed

lemma paramLoop_stops:
  "isVariadic p \<or> isInOut p \<Longrightarrow>
   paramLoop ctx AFD Reason n i ok ds (pre @ p # rest) = Inr (b, ds') \<Longrightarrow>
   \<not> b \<and> paramLoop ctx AFD Reason n i ok ds (pre @ p # rest') = Inr (b, ds')"
proof (induction pre arbitrary: i ok ds)
  case Nil
  then show ?case
    by (auto simp: Let_def split: if_splits sum.splits)
next
  case (Cons q pre)
  show ?case
  proof (cases "isVariadic q \<or> isInOut q")
    case True
    then show ?thesis
      using Cons.prems(2) by (auto simp: Let_def split: if_splits sum.splits)
  next
    case False
    then show ?thesis
      using Cons.prems Cons.IH[OF Cons.prems(1)]
      by (auto simp: Let_def split: if_splits sum.splits)
  qed
qed

lemma paramLoop_reaches:
  "shouldDiagnoseObjCReason Reason ctx \<Longrightarrow>
   isVariadic p \<or> isInOut p \<Longrightarrow>
   \<forall>q \<in> set pre. \<not> isVariadic q \<and> \<not> isInOut q \<and> isRepresentableIn ctx (getType q) \<Longrightarrow>
   paramLoop ctx AFD Reason n i ok ds (pre @ p # rest) =
     Inr (False, ds @ [Diag (if isVariadic p then ''objc_invalid_on_func_variadic''
                             else ''objc_invalid_on_func_inout'')
                         [ArgAttrKind (AttrKindOf Reason)]]
                    @ describeObjCReason AFD Reason)"
proof (induction pre arbitrary: i)
  case Nil
  then show ?case
    by (auto simp: Let_def shouldDiagnose_attrKind)
next
  case (Cons q pre)
  then show ?case by (simp add: Let_def)
qed

text \<open>
  Claim C5. A parameter list that contains a variadic or an in-out parameter \<open>p\<close> is
  not representable: \<^verbatim>\<open>isParamListRepresentableInObjC\<close> returns false. It returns on
  reaching \<open>p\<close> at the latest and never looks at what follows: the value returned and the
  diagnostics are the same whatever parameters stand after \<open>p\<close>. When diagnostics
  are suppressed for the reason, none is emitted. When they are enabled and every
  parameter before \<open>p\<close> passes, the one diagnostic is the one keyed to variadic (or
  in-out) parameters, with the note that describes the reason.
\<close>

theorem variadic_or_inout_fails_param_list:
  assumes "isVariadic p \<or> isInOut p"
  shows "\<exists>ds. isParamListRepresentableInObjC ctx AFD (pre @ p # rest) Reason = Inr (False, ds) \<and>
           (\<not> shouldDiagnoseObjCReason Reason ctx \<longrightarrow> ds = []) \<and>
           (\<forall>rest'. length rest' = length rest \<longrightarrow>
              isParamListRepresentableInObjC ctx AFD (pre @ p # rest') Reason = Inr (False, ds)) \<and>
           (shouldDiagnoseObjCReason Reason ctx \<and>
            (\<forall>q \<in> set pre. \<not> isVariadic q \<and> \<not> isInOut q \<and> isRepresentableIn ctx (getType q)) \<longrightarrow>
              ds = [Diag (if isVariadic p then ''objc_invalid_on_func_variadic''
                          else ''objc_invalid_on_func_inout'')
                      [ArgAttrKind (AttrKindOf Reason)]]
                   @ describeObjCReason AFD Reason)"
proof -
  let ?n = "length (pre @ p # rest)"
  obtain b ds where r: "paramLoop ctx AFD Reason ?n 0 True [] (pre @ p # rest) = Inr (b, ds)"
    using paramLoop_total by blast
  have nb: "\<not> b"
    using paramLoop_stops[OF assms r] by simp
  have silent: "\<not> shouldDiagnoseObjCReason Reason ctx \<longrightarrow> ds = []"
    using paramLoop_silent r by blast
  have indep: "paramLoop ctx AFD Reason ?n 0 True [] (pre @ p # rest') = Inr (b, ds)" for rest'
    using paramLoop_stops[OF assms r] by simp
  have reach: "ds = [Diag (if isVariadic p then ''objc_invalid_on_func_variadic''
                          else ''objc_invalid_on_func_inout'')
                      [ArgAttrKind (AttrKindOf Reason)]]
                   @ describeObjCReason AFD Reason"
    if "shouldDiagnoseObjCReason Reason ctx"
       "\<forall>q \<in> set pre. \<not> isVariadic q \<and> \<not> isInOut q \<and> isRepresentableIn ctx (getType q)"
    using paramLoop_reaches[OF that(1) assms that(2), of AFD ?n 0 True "[]" rest] r by simp
  show ?thesis
    using r nb silent indep reach
    by (auto simp: isParamListRepresentableInObjC_def)
qed

theorem variadic_or_inout_fails_param_list_witness:
  "isVariadic ((sampleParam ''b'' (StructType ''Int''))\<lparr>isVariadic := True\<rparr>) \<and>
   isParamListRepresentableInObjC sampleContext sampleMethod
     [sampleParam ''a'' (StructType ''Int''),
      (sampleParam ''b'' (StructType ''Int''))\<lparr>isVariadic := True\<rparr>,
      sampleParam ''c'' (StructType ''Opaque'')] ExplicitlyObjC
   = Inr (False, [Diag ''objc_invalid_on_func_variadic'' [ArgAttrKind (AttrKindOf ExplicitlyObjC)]]) \<and>
   isParamListRepresentableInObjC sampleContext sampleMethod
     [sampleParam ''a'' (StructType ''Int''),
      (sampleParam ''b'' (StructType ''Int''))\<lparr>isVariadic := True\<rparr>,
      sampleParam ''c'' (StructType ''Int'')] ExplicitlyObjC
   = Inr (False, [Diag ''objc_invalid_on_func_variadic'' [ArgAttrKind (AttrKindOf ExplicitlyObjC)]])"
  using variadic_or_inout_fails_param_list
    [of "(sampleParam ''b'' (StructType ''Int''))\<lparr>isVariadic := True\<rparr>"
        sampleContext sampleMethod "[sampleParam ''a'' (StructType ''Int'')]"
        "[sampleParam ''c'' (StructType ''Opaque'')]" ExplicitlyObjC]
  by (simp add: sample_defs check_defs)

section \<open>Which reasons are diagnosed\<close>

text \<open>
  Claim C6. \<^verbatim>\<open>shouldDiagnoseObjCReason\<close> depends on the reason and on the language
  options only: contexts that agree on the legacy-inference flag
  \<^verbatim>\<open>EnableSwift3ObjCInference\<close> give the same answer. For the three silent reasons
  (member of a subclass, member of an \<^verbatim>\<open>@objcMembers\<close> class, accessor) it is false
  in every context; and flipping the legacy-inference flag changes the answer for
  \<^verbatim>\<open>@IBInspectable\<close> and \<^verbatim>\<open>@GKInspectable\<close> and for no other reason.
\<close>

theorem shouldDiagnose_flag_sensitivity:
  "shouldDiagnoseObjCReason MemberOfObjCSubclass ctx = False \<and>
   shouldDiagnoseObjCReason MemberOfObjCMembersClass ctx = False \<and>
   shouldDiagnoseObjCReason Accessor ctx = False \<and>
   ((shouldDiagnoseObjCReason Reason
       (ctx\<lparr>LangOpts := (LangOpts ctx)
               \<lparr>EnableSwift3ObjCInference := \<not> EnableSwift3ObjCInference (LangOpts ctx)\<rparr>\<rparr>)
     \<noteq> shouldDiagnoseObjCReason Reason ctx)
    = (Reason = ExplicitlyIBInspectable \<or> Reason = ExplicitlyGKInspectable)) \<and>
   (EnableSwift3ObjCInference (LangOpts ctx') = EnableSwift3ObjCInference (LangOpts ctx) \<longrightarrow>
      shouldDiagnoseObjCReason Reason ctx' = shouldDiagnoseObjCReason Reason ctx)"
  by (cases Reason) simp_all

theorem shouldDiagnose_flag_sensitivity_witness:
  "shouldDiagnoseObjCReason Accessor sampleContext = False \<and>
   shouldDiagnoseObjCReason ExplicitlyIBInspectable
     (sampleContext\<lparr>LangOpts := (LangOpts sampleContext)\<lparr>EnableSwift3ObjCInference := True\<rparr>\<rparr>)
     \<noteq> shouldDiagnoseObjCReason ExplicitlyIBInspectable sampleContext \<and>
   EnableSwift3ObjCInference (LangOpts (sampleContext\<lparr>getBoolDecl := None\<rparr>))
     = EnableSwift3ObjCInference (LangOpts sampleContext) \<and>
   shouldDiagnoseObjCReason ExplicitlyIBInspectable (sampleContext\<lparr>getBoolDecl := None\<rparr>)
     = shouldDiagnoseObjCReason ExplicitlyIBInspectable sampleContext"
  using shouldDiagnose_flag_sensitivity
    [of sampleContext ExplicitlyIBInspectable "sampleContext\<lparr>getBoolDecl := None\<rparr>"]
  by (simp add: sampleContext_def)

section \<open>A parameter that fails, with diagnostics enabled\<close>

text \<open>
  Claim C1. The claim is that a function with a parameter that is not representable is
  not representable, with diagnostics enabled as with diagnostics suppressed. For the
  method \<^verbatim>\<open>func f(x: (Int, Int))\<close> the parameter list is found not representable and
  the parameter is diagnosed; with the reason \<^verbatim>\<open>ExplicitlyObjC\<close>, which is
  diagnosed, \<^verbatim>\<open>isRepresentableInObjC\<close> nevertheless returns true, since lines 504-512
  return only when diagnostics are suppressed and the value of the parameter check is
  then dropped; with the reason \<^verbatim>\<open>MemberOfObjCMembersClass\<close>, which is not
  diagnosed, it returns false.
\<close>

theorem param_failure_forgotten_when_diagnosing:
  "isParamListRepresentableInObjC sampleContext sampleTupleParamMethod
     (getParameters sampleTupleParamMethod) ExplicitlyObjC
     = Inr (False,
            [Diag ''objc_invalid_on_func_single_param_type''
               [ArgAttrKind (AttrKindOf ExplicitlyObjC)],
             Diag ''not_objc_tuple'' []]) \<and>
   isRepresentableInObjC sampleContext sampleTupleParamMethod ExplicitlyObjC
     = Inr (True, None,
            [Diag ''objc_invalid_on_func_single_param_type''
               [ArgAttrKind (AttrKindOf ExplicitlyObjC)],
             Diag ''not_objc_tuple'' []]) \<and>
   isRepresentableInObjC sampleContext sampleTupleParamMethod MemberOfObjCMembersClass
     = Inr (False, None, [])"
  by (simp add: sampleTupleParamMethod_def sample_defs check_defs)

section \<open>The function check stops the process at no diagnostic\<close>

lemma checkObjCInForeignClassContext_total:
  "\<exists>r. checkObjCInForeignClassContext ctx VD Reason = Inr r"
  by (cases "shouldDiagnoseObjCReason Reason ctx")
     (auto simp: checkObjCInForeignClassContext_def shouldDiagnose_attrKind
           split: option.splits ForeignKind.splits)

lemma checkObjCWithGenericParams_total:
  "\<exists>r. checkObjCWithGenericParams ctx AFD Reason = Inr r"
  by (cases "shouldDiagnoseObjCReason Reason ctx")
     (auto simp: checkObjCWithGenericParams_def shouldDiagnose_attrKind)

lemma checkResultType_total:
  "\<exists>r. checkResultType ctx AFD Reason = Inr r"
  by (cases "shouldDiagnoseObjCReason Reason ctx")
     (auto simp: checkResultType_def shouldDiagnose_attrKind Let_def)

lemma checkParamsAndResult_total:
  "\<exists>r. checkParamsAndResult ctx AFD Reason = Inr r"
proof -
  obtain b ds where p: "isParamListRepresentableInObjC ctx AFD (getParameters AFD) Reason = Inr (b, ds)"
    unfolding isParamListRepresentableInObjC_def using paramLoop_total by blast
  obtain r ds' where r: "checkResultType ctx AFD Reason = Inr (r, ds')"
    using checkResultType_total by (metis surj_pair)
  show ?thesis
    using p r by (auto simp: checkParamsAndResult_def Let_def)
qed

lemma representableBeforeThrows_total:
  "\<exists>r. representableBeforeThrows ctx AFD Reason = Inr r"
proof -
  obtain b1 ds1 where a: "checkObjCInForeignClassContext ctx AFD Reason = Inr (b1, ds1)"
    using checkObjCInForeignClassContext_total by (metis surj_pair)
  obtain b2 ds2 where b: "checkObjCWithGenericParams ctx AFD Reason = Inr (b2, ds2)"
    using checkObjCWithGenericParams_total by (metis surj_pair)
  obtain r ds4 where c: "checkParamsAndResult ctx AFD Reason = Inr (r, ds4)"
    using checkParamsAndResult_total by (metis surj_pair)
  show ?thesis
    using a b c
    by (auto simp: representableBeforeThrows_def Let_def split: prod.splits DeclKind.splits)
qed

lemma selectErrorKind_fatal:
  "selectErrorKind ctx AFD Reason = Inl e \<Longrightarrow> e = BadCast \<and> \<not> isaFuncDecl (declKind AFD) \<and> \<not> isaConstructorDecl (declKind AFD)"
  by (cases "shouldDiagnoseObjCReason Reason ctx")
     (auto simp: selectErrorKind_def shouldDiagnose_attrKind Let_def
           split: if_splits option.splits DeclKind.splits)

lemma isRepresentableInObjC_fatal:
  assumes "isRepresentableInObjC ctx AFD Reason = Inl e"
  shows "e = BadCast"
proof -
  obtain r ds where a: "representableBeforeThrows ctx AFD Reason = Inr (r, ds)"
    using representableBeforeThrows_total by (metis surj_pair)
  show ?thesis
    using assms a selectErrorKind_fatal[of ctx AFD Reason e]
    by (auto simp: isRepresentableInObjC_def split: option.splits if_splits sum.splits prod.splits)
qed

section \<open>The kind of the error convention\<close>

text \<open>
  Claim C2. A throwing function whose result type is \<^verbatim>\<open>Void\<close> and for which control
  reaches the selection of the error convention gets the kind \<^verbatim>\<open>ZeroResult\<close>, and
  the error-result type of the convention is the declared type of \<^verbatim>\<open>ObjCBool\<close>, or
  of \<^verbatim>\<open>Bool\<close> when \<^verbatim>\<open>ObjCBool\<close> is not available. (The case in which neither
  exists is that of claim C8.)
\<close>

theorem throwing_void_uses_ZeroResult:
  assumes "isaFuncDecl (declKind AFD)"
    and "hasThrows AFD"
    and "isVoid (getResultInterfaceType AFD)"
    and "representableBeforeThrows ctx AFD Reason = Inr (None, ds)"
    and "getObjCBoolDecl ctx = Some boolDecl \<or>
         (getObjCBoolDecl ctx = None \<and> getBoolDecl ctx = Some boolDecl)"
  shows "\<exists>conv. isRepresentableInObjC ctx AFD Reason = Inr (True, Some conv, ds) \<and>
           getKind conv = ZeroResult \<and>
           getResultType conv = Some (getDeclaredType boolDecl)"
proof -
  have "selectErrorKind ctx AFD Reason =
          Inr (Some (ZeroResult, Some (getDeclaredType boolDecl)), [])"
    using assms(1,3,5) by (auto simp: selectErrorKind_def getCanonicalType_def)
  then show ?thesis
    using assms(2,4) by (simp add: isRepresentableInObjC_def getZeroResult_def)
qed

theorem throwing_void_uses_ZeroResult_witness:
  "isaFuncDecl (declKind (sampleMethod\<lparr>hasThrows := True\<rparr>)) \<and>
   hasThrows (sampleMethod\<lparr>hasThrows := True\<rparr>) \<and>
   isVoid (getResultInterfaceType (sampleMethod\<lparr>hasThrows := True\<rparr>)) \<and>
   representableBeforeThrows (sampleContext\<lparr>getObjCBoolDecl := None\<rparr>)
     (sampleMethod\<lparr>hasThrows := True\<rparr>) ExplicitlyObjC = Inr (None, []) \<and>
   getObjCBoolDecl (sampleContext\<lparr>getObjCBoolDecl := None\<rparr>) = None \<and>
   getBoolDecl (sampleContext\<lparr>getObjCBoolDecl := None\<rparr>) = Some sampleBool \<and>
   (\<exists>conv. isRepresentableInObjC (sampleContext\<lparr>getObjCBoolDecl := None\<rparr>)
              (sampleMethod\<lparr>hasThrows := True\<rparr>) ExplicitlyObjC = Inr (True, Some conv, []) \<and>
           getKind conv = ZeroResult \<and>
           getResultType conv = Some (StructType ''Bool''))"
proof -
  have pre: "representableBeforeThrows (sampleContext\<lparr>getObjCBoolDecl := None\<rparr>)
     (sampleMethod\<lparr>hasThrows := True\<rparr>) ExplicitlyObjC = Inr (None, [])"
    by (simp add: sample_defs check_defs)
  have b: "getObjCBoolDecl (sampleContext\<lparr>getObjCBoolDecl := None\<rparr>) = None \<and>
           getBoolDecl (sampleContext\<lparr>getObjCBoolDecl := None\<rparr>) = Some sampleBool"
    by (simp add: sample_defs)
  have k: "isaFuncDecl (declKind (sampleMethod\<lparr>hasThrows := True\<rparr>))"
          "hasThrows (sampleMethod\<lparr>hasThrows := True\<rparr>)"
          "isVoid (getResultInterfaceType (sampleMethod\<lparr>hasThrows := True\<rparr>))"
    by (simp_all add: sample_defs)
  have "getDeclaredType sampleBool = StructType ''Bool''"
    by (simp add: sample_defs)
  then show ?thesis
    using throwing_void_uses_ZeroResult[OF k pre, of sampleBool] pre b k by simp
qed

text \<open>
  Claim C7, as stated, fails: a throwing function that returns an optional of a bridged
  type is rejected, but the dedicated diagnostic is emitted only when the reason is
  diagnosed. For the reason \<^verbatim>\<open>MemberOfObjCMembersClass\<close> the check returns false with
  no diagnostic at all.
\<close>

theorem optional_result_rejected_silently_counterexample:
  "hasThrows sampleOptionalResultMethod \<and>
   getOptionalObjectType (getResultInterfaceType sampleOptionalResultMethod)
     = Some (ClassType sampleNSObject) \<and>
   isBridgedToObjectiveCClass sampleContext (ClassType sampleNSObject) \<and>
   isRepresentableInObjC sampleContext sampleOptionalResultMethod MemberOfObjCMembersClass
     = Inr (False, None, [])"
  by (simp add: sampleOptionalResultMethod_def sample_defs check_defs)

text \<open>
  Claim C7, amended. For a throwing function with a result type other than
  \<^verbatim>\<open>Void\<close> for which control reaches the selection of the error convention: when the
  result type is not optional and is bridged to an Objective-C class, the kind is
  \<^verbatim>\<open>NilResult\<close>; when it is an optional of such a type, the check returns false and
  produces no convention, whatever the reason, and emits the diagnostic
  \<^verbatim>\<open>objc_invalid_on_throwing_optional_result\<close> exactly when diagnostics are enabled for
  the reason; every other result type is rejected in the same way with the different,
  generic diagnostic \<^verbatim>\<open>objc_invalid_on_throwing_result\<close>.
\<close>

theorem throwing_bridged_result_convention:
  assumes "isaFuncDecl (declKind AFD)"
    and "hasThrows AFD"
    and "\<not> isVoid (getResultInterfaceType AFD)"
    and "representableBeforeThrows ctx AFD Reason = Inr (None, ds)"
  shows "(getOptionalObjectType (getResultInterfaceType AFD) = None \<and>
          isBridgedToObjectiveCClass ctx (getResultInterfaceType AFD) \<longrightarrow>
            (\<exists>conv. isRepresentableInObjC ctx AFD Reason = Inr (True, Some conv, ds) \<and>
                    getKind conv = NilResult)) \<and>
         (\<forall>T. getOptionalObjectType (getResultInterfaceType AFD) = Some T \<and>
               isBridgedToObjectiveCClass ctx T \<longrightarrow>
            isRepresentableInObjC ctx AFD Reason =
              Inr (False, None,
                   ds @ (if shouldDiagnoseObjCReason Reason ctx then
                           [Diag ''objc_invalid_on_throwing_optional_result''
                              [ArgAttrKind (AttrKindOf Reason),
                               ArgType (getResultInterfaceType AFD)]]
                           @ describeObjCReason AFD Reason
                         else []))) \<and>
         ((getOptionalObjectType (getResultInterfaceType AFD) = None \<and>
           \<not> isBridgedToObjectiveCClass ctx (getResultInterfaceType AFD)) \<or>
          (\<exists>T. getOptionalObjectType (getResultInterfaceType AFD) = Some T \<and>
               \<not> isBridgedToObjectiveCClass ctx T) \<longrightarrow>
            isRepresentableInObjC ctx AFD Reason =
              Inr (False, None,
                   ds @ (if shouldDiagnoseObjCReason Reason ctx then
                           [Diag ''objc_invalid_on_throwing_result''
                              [ArgAttrKind (AttrKindOf Reason),
                               ArgType (getResultInterfaceType AFD)]]
                           @ describeObjCReason AFD Reason
                         else [])))"
proof (intro conjI impI allI)
  assume "getOptionalObjectType (getResultInterfaceType AFD) = None \<and>
          isBridgedToObjectiveCClass ctx (getResultInterfaceType AFD)"
  then have "selectErrorKind ctx AFD Reason = Inr (Some (NilResult, None), [])"
    using assms(1,3) by (simp add: selectErrorKind_def)
  then show "\<exists>conv. isRepresentableInObjC ctx AFD Reason = Inr (True, Some conv, ds) \<and>
                    getKind conv = NilResult"
    using assms(2,4) by (simp add: isRepresentableInObjC_def getNilResult_def)
next
  fix T
  assume "getOptionalObjectType (getResultInterfaceType AFD) = Some T \<and>
          isBridgedToObjectiveCClass ctx T"
  then have "selectErrorKind ctx AFD Reason =
          Inr (None, if shouldDiagnoseObjCReason Reason ctx then
                           [Diag ''objc_invalid_on_throwing_optional_result''
                              [ArgAttrKind (AttrKindOf Reason),
                               ArgType (getResultInterfaceType AFD)]]
                           @ describeObjCReason AFD Reason
                         else [])"
    using assms(1,3) by (simp add: selectErrorKind_def shouldDiagnose_attrKind)
  then show "isRepresentableInObjC ctx AFD Reason =
              Inr (False, None,
                   ds @ (if shouldDiagnoseObjCReason Reason ctx then
                           [Diag ''objc_invalid_on_throwing_optional_result''
                              [ArgAttrKind (AttrKindOf Reason),
                               ArgType (getResultInterfaceType AFD)]]
                           @ describeObjCReason AFD Reason
                         else []))"
    using assms(2,4) by (simp add: isRepresentableInObjC_def)
next
  assume "(getOptionalObjectType (getResultInterfaceType AFD) = None \<and>
           \<not> isBridgedToObjectiveCClass ctx (getResultInterfaceType AFD)) \<or>
          (\<exists>T. getOptionalObjectType (getResultInterfaceType AFD) = Some T \<and>
               \<not> isBridgedToObjectiveCClass ctx T)"
  then have "selectErrorKind ctx AFD Reason =
          Inr (None, if shouldDiagnoseObjCReason Reason ctx then
                           [Diag ''objc_invalid_on_throwing_result''
                              [ArgAttrKind (AttrKindOf Reason),
                               ArgType (getResultInterfaceType AFD)]]
                           @ describeObjCReason AFD Reason
                         else [])"
    using assms(1,3) by (auto simp: selectErrorKind_def shouldDiagnose_attrKind)
  then show "isRepresentableInObjC ctx AFD Reason =
              Inr (False, None,
                   ds @ (if shouldDiagnoseObjCReason Reason ctx then
                           [Diag ''objc_invalid_on_throwing_result''
                              [ArgAttrKind (AttrKindOf Reason),
                               ArgType (getResultInterfaceType AFD)]]
                           @ describeObjCReason AFD Reason
                         else []))"
    using assms(2,4) by (simp add: isRepresentableInObjC_def)
qed

theorem throwing_bridged_result_convention_witness:
  "isaFuncDecl (declKind sampleOptionalResultMethod) \<and>
   hasThrows sampleOptionalResultMethod \<and>
   \<not> isVoid (getResultInterfaceType sampleOptionalResultMethod) \<and>
   representableBeforeThrows sampleContext sampleOptionalResultMethod ExplicitlyObjC
     = Inr (None, []) \<and>
   getOptionalObjectType (getResultInterfaceType sampleOptionalResultMethod)
     = Some (ClassType sampleNSObject) \<and>
   isBridgedToObjectiveCClass sampleContext (ClassType sampleNSObject) \<and>
   isRepresentableInObjC sampleContext sampleOptionalResultMethod ExplicitlyObjC =
     Inr (False, None,
          [Diag ''objc_invalid_on_throwing_optional_result''
             [ArgAttrKind (AttrKindOf ExplicitlyObjC),
              ArgType (OptionalType (ClassType sampleNSObject))]])"
proof -
  have pre: "representableBeforeThrows sampleContext sampleOptionalResultMethod ExplicitlyObjC
     = Inr (None, [])"
    by (simp add: sampleOptionalResultMethod_def sample_defs check_defs)
  have k: "isaFuncDecl (declKind sampleOptionalResultMethod)"
          "hasThrows sampleOptionalResultMethod"
          "\<not> isVoid (getResultInterfaceType sampleOptionalResultMethod)"
    by (simp_all add: sampleOptionalResultMethod_def sample_defs)
  have o: "getOptionalObjectType (getResultInterfaceType sampleOptionalResultMethod)
             = Some (ClassType sampleNSObject)"
       "isBridgedToObjectiveCClass sampleContext (ClassType sampleNSObject)"
       "getResultInterfaceType sampleOptionalResultMethod = OptionalType (ClassType sampleNSObject)"
    by (simp_all add: sampleOptionalResultMethod_def sample_defs isBridgedToObjectiveCClass_def)
  show ?thesis
    using throwing_bridged_result_convention[OF k pre] pre k o
    by (simp add: describeObjCReason_def)
qed

text \<open>
  Claim C8, as stated, fails: when neither \<^verbatim>\<open>ObjCBool\<close> nor \<^verbatim>\<open>Bool\<close> exists, the
  selection of the convention for a throwing function that returns \<^verbatim>\<open>Void\<close> does not
  stop the process. It emits \<^verbatim>\<open>broken_bool\<close> and returns false, which leaves the
  declaration unexposed.
\<close>

theorem missing_bool_recovers_counterexample:
  "hasThrows sampleThrowingMethod \<and>
   isVoid (getResultInterfaceType sampleThrowingMethod) \<and>
   getObjCBoolDecl sampleContextWithoutBool = None \<and>
   getBoolDecl sampleContextWithoutBool = None \<and>
   isRepresentableInObjC sampleContextWithoutBool sampleThrowingMethod ExplicitlyObjC
     = Inr (False, None, [Diag ''broken_bool'' []])"
  by (simp add: sampleContextWithoutBool_def sampleThrowingMethod_def sample_defs check_defs)

text \<open>
  Claim C8, amended. \<^verbatim>\<open>getObjCDiagnosticAttrKind\<close> stops the process for the three
  reasons that are never diagnosed and for no other reason; the representability check
  of a function never stops there, since it calls it for diagnosed reasons only. When
  neither boolean type exists, the check of a throwing function that returns
  \<^verbatim>\<open>Void\<close> does not stop the process: it emits \<^verbatim>\<open>broken_bool\<close>, whatever the
  reason, and returns false with no convention.
\<close>

theorem fatal_only_for_undiagnosable_reason:
  "((\<exists>e. getObjCDiagnosticAttrKind Reason = Inl e) =
      (Reason = MemberOfObjCSubclass \<or> Reason = MemberOfObjCMembersClass \<or> Reason = Accessor)) \<and>
   (\<forall>s. isRepresentableInObjC ctx AFD Reason \<noteq> Inl (Unreachable s)) \<and>
   (isaFuncDecl (declKind AFD) \<and> hasThrows AFD \<and> isVoid (getResultInterfaceType AFD) \<and>
    representableBeforeThrows ctx AFD Reason = Inr (None, ds) \<and>
    getObjCBoolDecl ctx = None \<and> getBoolDecl ctx = None \<longrightarrow>
      isRepresentableInObjC ctx AFD Reason = Inr (False, None, ds @ [Diag ''broken_bool'' []]))"
proof (intro conjI allI impI)
  show "(\<exists>e. getObjCDiagnosticAttrKind Reason = Inl e) =
      (Reason = MemberOfObjCSubclass \<or> Reason = MemberOfObjCMembersClass \<or> Reason = Accessor)"
    by (cases Reason) simp_all
next
  fix s
  show "isRepresentableInObjC ctx AFD Reason \<noteq> Inl (Unreachable s)"
    using isRepresentableInObjC_fatal[of ctx AFD Reason "Unreachable s"] by auto
next
  assume a: "isaFuncDecl (declKind AFD) \<and> hasThrows AFD \<and> isVoid (getResultInterfaceType AFD) \<and>
    representableBeforeThrows ctx AFD Reason = Inr (None, ds) \<and>
    getObjCBoolDecl ctx = None \<and> getBoolDecl ctx = None"
  then have "selectErrorKind ctx AFD Reason = Inr (None, [Diag ''broken_bool'' []])"
    by (simp add: selectErrorKind_def)
  then show "isRepresentableInObjC ctx AFD Reason = Inr (False, None, ds @ [Diag ''broken_bool'' []])"
    using a by (simp add: isRepresentableInObjC_def)
qed

theorem fatal_only_for_undiagnosable_reason_witness:
  "(\<exists>e. getObjCDiagnosticAttrKind Accessor = Inl e) \<and>
   isaFuncDecl (declKind sampleThrowingMethod) \<and> hasThrows sampleThrowingMethod \<and>
   isVoid (getResultInterfaceType sampleThrowingMethod) \<and>
   representableBeforeThrows sampleContextWithoutBool sampleThrowingMethod Accessor = Inr (None, []) \<and>
   getObjCBoolDecl sampleContextWithoutBool = None \<and>
   getBoolDecl sampleContextWithoutBool = None \<and>
   isRepresentableInObjC sampleContextWithoutBool sampleThrowingMethod Accessor
      = Inr (False, None, [Diag ''broken_bool'' []])"
proof -
  have pre: "representableBeforeThrows sampleContextWithoutBool sampleThrowingMethod Accessor
               = Inr (None, [])"
    by (simp add: sampleContextWithoutBool_def sampleThrowingMethod_def sample_defs check_defs)
  have k: "isaFuncDecl (declKind sampleThrowingMethod)" "hasThrows sampleThrowingMethod"
          "isVoid (getResultInterfaceType sampleThrowingMethod)"
          "getObjCBoolDecl sampleContextWithoutBool = None"
          "getBoolDecl sampleContextWithoutBool = None"
    by (simp_all add: sampleContextWithoutBool_def sampleThrowingMethod_def sample_defs)
  show ?thesis
    using fatal_only_for_undiagnosable_reason
            [of Accessor sampleContextWithoutBool sampleThrowingMethod "[]"] pre k
    by simp
qed

section \<open>The index of the error parameter\<close>

lemma skipTrailingClosures_take:
  "n \<le> length PL \<Longrightarrow>
   skipTrailingClosures PL n = n - length (takeWhile isFunctionTypedParam (rev (take n PL)))"
proof (induction n)
  case 0
  show ?case by simp
next
  case (Suc n)
  then have t: "take (Suc n) PL = take n PL @ [PL ! n]"
    by (simp add: take_Suc_conv_app_nth)
  have l: "length (takeWhile isFunctionTypedParam (rev (take n PL))) \<le> n"
    using length_takeWhile_le[of isFunctionTypedParam "rev (take n PL)"] by simp
  show ?case
    using Suc t l
    by (auto simp: Let_def isFunctionTypedParam_def getRValueType_def split: option.splits)
qed

lemma skipTrailingClosures_all:
  "skipTrailingClosures PL (length PL) = length PL - trailingFunctionTyped PL"
  using skipTrailingClosures_take[of "length PL" PL] by (simp add: trailingFunctionTyped_def)

lemma defaultErrorParameterIndex_eq:
  "defaultErrorParameterIndex AFD =
     (if isaConstructorDecl (declKind AFD) \<and> isObjCZeroParameterWithLongSelector AFD then 0
      else length (getParameters AFD) - trailingFunctionTyped (getParameters AFD))"
  by (auto simp: defaultErrorParameterIndex_def skipTrailingClosures_all Let_def
                 isObjCZeroParameterWithLongSelector_def split: list.splits)

lemma formErrorConvention_index:
  "getErrorParameterIndex (formErrorConvention kind i paramTy resultTy) = i"
  by (cases kind)
     (simp_all add: getZeroResult_def getNonZeroResult_def getZeroPreservedResult_def
                    getNilResult_def)

lemma isRepresentableInObjC_index:
  "isRepresentableInObjC ctx AFD Reason = Inr (b, Some conv, ds) \<Longrightarrow>
   getErrorParameterIndex conv = determineErrorParameterIndex ctx AFD"
  by (auto simp: isRepresentableInObjC_def formErrorConvention_index
           split: sum.splits option.splits if_splits prod.splits)

text \<open>
  Claim C3, as stated, fails for the initializer with a single, named parameter of type
  \<^verbatim>\<open>()\<close>: \<^verbatim>\<open>init(malice: ()) throws\<close> has one parameter, which is not of function
  type, so that the claim gives the index 1; the convention has the index 0 (lines
  667-669).
\<close>

theorem error_index_of_special_init_counterexample:
  "hasThrows sampleSpecialInit \<and> objcAttr sampleSpecialInit = None \<and>
   length (getParameters sampleSpecialInit)
     - trailingFunctionTyped (getParameters sampleSpecialInit) = 1 \<and>
   isRepresentableInObjC sampleContext sampleSpecialInit ExplicitlyObjC =
     Inr (True,
          Some (getNilResult 0 IsNotOwned IsNotReplaced (errorParameterTypeOf sampleContext)),
          []) \<and>
   getErrorParameterIndex
     (getNilResult 0 IsNotOwned IsNotReplaced (errorParameterTypeOf sampleContext)) = 0"
  by (simp add: sampleSpecialInit_def sample_defs check_defs trailingFunctionTyped_def
                isFunctionTypedParam_def)

text \<open>
  Claim C3, amended. For a throwing function or initializer whose \<^verbatim>\<open>@objc\<close>
  attribute, if any, gives no name, the index of the error parameter in the convention
  produced is the number of parameters minus the number of trailing parameters whose
  type, looked at through one level of optionality, is a function type; except for the
  initializer with a single, named parameter of type \<^verbatim>\<open>()\<close>, for which it is 0.
\<close>

theorem error_index_without_name:
  assumes "hasThrows AFD"
    and "objcAttr AFD = None \<or> (\<exists>objc. objcAttr AFD = Some objc \<and> getName objc = None)"
    and "isRepresentableInObjC ctx AFD Reason = Inr (b, Some conv, ds)"
  shows "getErrorParameterIndex conv =
           (if isaConstructorDecl (declKind AFD) \<and> isObjCZeroParameterWithLongSelector AFD then 0
            else length (getParameters AFD) - trailingFunctionTyped (getParameters AFD))"
proof -
  have "determineErrorParameterIndex ctx AFD = defaultErrorParameterIndex AFD"
    using assms(2) by (auto simp: determineErrorParameterIndex_def)
  then show ?thesis
    using isRepresentableInObjC_index[OF assms(3)] defaultErrorParameterIndex_eq by simp
qed

theorem error_index_without_name_witness:
  "hasThrows sampleClosureMethod \<and>
   (\<exists>objc. objcAttr sampleClosureMethod = Some objc \<and> getName objc = None) \<and>
   isRepresentableInObjC sampleContext sampleClosureMethod ExplicitlyObjC =
     Inr (True,
          Some (getZeroResult 1 IsNotOwned IsNotReplaced (errorParameterTypeOf sampleContext)
                  (Some (StructType ''ObjCBool''))),
          []) \<and>
   length (getParameters sampleClosureMethod) = 2 \<and>
   trailingFunctionTyped (getParameters sampleClosureMethod) = 1 \<and>
   getErrorParameterIndex
     (getZeroResult 1 IsNotOwned IsNotReplaced (errorParameterTypeOf sampleContext)
        (Some (StructType ''ObjCBool''))) = 1"
proof -
  have r: "isRepresentableInObjC sampleContext sampleClosureMethod ExplicitlyObjC =
     Inr (True,
          Some (getZeroResult 1 IsNotOwned IsNotReplaced (errorParameterTypeOf sampleContext)
                  (Some (StructType ''ObjCBool''))),
          [])"
    by (simp add: sampleClosureMethod_def sample_defs check_defs)
  have k: "hasThrows sampleClosureMethod"
     "objcAttr sampleClosureMethod = None \<or>
      (\<exists>objc. objcAttr sampleClosureMethod = Some objc \<and> getName objc = None)"
    by (simp_all add: sampleClosureMethod_def sample_defs)
  have t: "length (getParameters sampleClosureMethod) = 2"
          "trailingFunctionTyped (getParameters sampleClosureMethod) = 1"
    by (simp_all add: sampleClosureMethod_def sample_defs trailingFunctionTyped_def
                      isFunctionTypedParam_def)
  show ?thesis
    using error_index_without_name[OF k r] r k t
    by (simp add: sampleClosureMethod_def sample_defs)
qed

lemma findErrorSelectorPiece_rightmost:
  "i < n \<Longrightarrow> pieces ! i = Id_error \<Longrightarrow>
   (\<forall>j. i < j \<and> j < n \<longrightarrow> pieces ! j \<noteq> Id_error) \<Longrightarrow>
   findErrorSelectorPiece ctx pieces n = Some i"
proof (induction n)
  case 0
  then show ?case by simp
next
  case (Suc n)
  show ?case
  proof (cases "i = n")
    case True
    then show ?thesis using Suc.prems by (simp add: Let_def)
  next
    case False
    then have "i < n" using Suc.prems by simp
    moreover have "pieces ! n \<noteq> Id_error" using Suc.prems False by simp
    moreover have "n \<noteq> 0" using \<open>i < n\<close> by simp
    ultimately show ?thesis
      using Suc by (simp add: Let_def)
  qed
qed

lemma findErrorSelectorPiece_none:
  "(\<forall>i < n. pieces ! i \<noteq> Id_error) \<Longrightarrow>
   findErrorSelectorPiece ctx pieces n =
     (if 0 < n \<and> getLastWord ctx (pieces ! 0) = ''Error'' then Some 0 else None)"
proof (induction n)
  case 0
  then show ?case by simp
next
  case (Suc n)
  then show ?case by (cases n) (auto simp: Let_def)
qed

text \<open>
  Claim C4, read as accepting the last piece of the selector, fails: for the selector
  \<^verbatim>\<open>doThing:completion:withError:\<close> no piece is \<^verbatim>\<open>error\<close> and the last word of
  the last piece is \<^verbatim>\<open>Error\<close>, which would give the index 2; the code looks at the
  last word of the first piece only, finds nothing and takes the default, 1, before the
  trailing closure.
\<close>

theorem last_piece_Error_not_matched_counterexample:
  "hasThrows sampleNamedMethod \<and>
   objcAttr sampleNamedMethod =
     Some \<lparr>getName = Some (ObjCSelector 3 [''doThing'', ''completion'', ''withError'']),
           isNameImplicit = False, isSwift3Inferred = False\<rparr> \<and>
   Id_error \<notin> set [''doThing'', ''completion'', ''withError''] \<and>
   getLastWord sampleContext (last [''doThing'', ''completion'', ''withError'']) = ''Error'' \<and>
   length [''doThing'', ''completion'', ''withError''] - 1 = (2::nat) \<and>
   isRepresentableInObjC sampleContext sampleNamedMethod ExplicitlyObjC =
     Inr (True,
          Some (getZeroResult 1 IsNotOwned IsNotReplaced (errorParameterTypeOf sampleContext)
                  (Some (StructType ''ObjCBool''))),
          []) \<and>
   getErrorParameterIndex
     (getZeroResult 1 IsNotOwned IsNotReplaced (errorParameterTypeOf sampleContext)
        (Some (StructType ''ObjCBool''))) = 1"
  by (simp add: sampleNamedMethod_def sample_defs check_defs Id_error_def isUpperCase_def)

text \<open>
  Claim C4, amended. For a throwing function whose \<^verbatim>\<open>@objc\<close> attribute names a
  selector, the index of the error parameter in the convention produced is found as
  follows. The pieces are searched from the last to the first for a piece equal to
  \<^verbatim>\<open>error\<close>: the index of the rightmost such piece is the index. When no piece is
  \<^verbatim>\<open>error\<close> and the last camel-case word of the first piece (the piece the search
  visits last) is \<^verbatim>\<open>Error\<close>, the index is 0. Otherwise the selector gives no index
  and the default applies.
\<close>

theorem error_index_from_selector:
  assumes "hasThrows AFD"
    and "objcAttr AFD = Some objc"
    and "getName objc = Some objcName"
    and "isRepresentableInObjC ctx AFD Reason = Inr (b, Some conv, ds)"
  shows "(\<forall>i. i < length (getSelectorPieces objcName) \<and>
              getSelectorPieces objcName ! i = Id_error \<and>
              (\<forall>j. i < j \<and> j < length (getSelectorPieces objcName) \<longrightarrow>
                     getSelectorPieces objcName ! j \<noteq> Id_error) \<longrightarrow>
              getErrorParameterIndex conv = i) \<and>
         (Id_error \<notin> set (getSelectorPieces objcName) \<and> getSelectorPieces objcName \<noteq> [] \<and>
          getLastWord ctx (getSelectorPieces objcName ! 0) = ''Error'' \<longrightarrow>
              getErrorParameterIndex conv = 0) \<and>
         (Id_error \<notin> set (getSelectorPieces objcName) \<and>
          (getSelectorPieces objcName = [] \<or>
           getLastWord ctx (getSelectorPieces objcName ! 0) \<noteq> ''Error'') \<longrightarrow>
              getErrorParameterIndex conv = defaultErrorParameterIndex AFD)"
proof -
  let ?ps = "getSelectorPieces objcName"
  have idx: "getErrorParameterIndex conv =
               (case findErrorSelectorPiece ctx ?ps (length ?ps) of
                  Some i \<Rightarrow> i
                | None \<Rightarrow> defaultErrorParameterIndex AFD)"
    using isRepresentableInObjC_index[OF assms(4)] assms(2,3)
    by (simp add: determineErrorParameterIndex_def Let_def)
  have none: "findErrorSelectorPiece ctx ?ps (length ?ps) =
                (if 0 < length ?ps \<and> getLastWord ctx (?ps ! 0) = ''Error'' then Some 0 else None)"
    if "Id_error \<notin> set ?ps"
    using that findErrorSelectorPiece_none[of "length ?ps" ?ps ctx] by (auto simp: in_set_conv_nth)
  show ?thesis
    using idx none findErrorSelectorPiece_rightmost[of _ "length ?ps" ?ps ctx]
    by auto
qed

theorem error_index_from_selector_witness:
  "hasThrows sampleErrorFirstMethod \<and>
   objcAttr sampleErrorFirstMethod =
     Some \<lparr>getName = Some (ObjCSelector 2 [''doThingAndReturnError'', ''with'']),
           isNameImplicit = False, isSwift3Inferred = False\<rparr> \<and>
   isRepresentableInObjC sampleContext sampleErrorFirstMethod ExplicitlyObjC =
     Inr (True,
          Some (getZeroResult 0 IsNotOwned IsNotReplaced (errorParameterTypeOf sampleContext)
                  (Some (StructType ''ObjCBool''))),
          []) \<and>
   Id_error \<notin> set [''doThingAndReturnError'', ''with''] \<and>
   getLastWord sampleContext ([''doThingAndReturnError'', ''with''] ! 0) = ''Error'' \<and>
   getErrorParameterIndex
     (getZeroResult 0 IsNotOwned IsNotReplaced (errorParameterTypeOf sampleContext)
        (Some (StructType ''ObjCBool''))) = 0"
proof -
  have r: "isRepresentableInObjC sampleContext sampleErrorFirstMethod ExplicitlyObjC =
     Inr (True,
          Some (getZeroResult 0 IsNotOwned IsNotReplaced (errorParameterTypeOf sampleContext)
                  (Some (StructType ''ObjCBool''))),
          [])"
    by (simp add: sampleErrorFirstMethod_def sample_defs check_defs Id_error_def isUpperCase_def)
  have k: "hasThrows sampleErrorFirstMethod"
     "objcAttr sampleErrorFirstMethod =
     Some \<lparr>getName = Some (ObjCSelector 2 [''doThingAndReturnError'', ''with'']),
           isNameImplicit = False, isSwift3Inferred = False\<rparr>"
     "getName \<lparr>getName = Some (ObjCSelector 2 [''doThingAndReturnError'', ''with'']),
           isNameImplicit = False, isSwift3Inferred = False\<rparr>
        = Some (ObjCSelector 2 [''doThingAndReturnError'', ''with''])"
    by (simp_all add: sampleErrorFirstMethod_def sample_defs)
  have w: "Id_error \<notin> set [''doThingAndReturnError'', ''with'']"
          "getLastWord sampleContext ([''doThingAndReturnError'', ''with''] ! 0) = ''Error''"
    by (simp_all add: sample_defs Id_error_def isUpperCase_def)
  show ?thesis
    using error_index_from_selector[OF k r] r k w
    by (simp add: getZeroResult_def)
qed

section \<open>The name of an override\<close>

text \<open>
  Claim C9. Let \<open>B\<close> override \<open>A\<close>, where \<open>A\<close> is a method exposed to Objective-C
  with selector \<open>foo\<close>, and \<open>B\<close> is exposed and carries no explicit name (it has no
  \<^verbatim>\<open>@objc\<close> attribute, or one without a name, or one whose name is implicit). Then \<^verbatim>\<open>inferObjCName\<close> leaves
  \<open>B\<close> with an attribute whose name is \<open>foo\<close>, so that the computed selector of
  \<open>B\<close> is \<open>foo\<close>, and emits no diagnostic. (A destructor overrides nothing, and name
  inference leaves it alone.)
\<close>

theorem override_name_adopted:
  assumes "declKind B \<noteq> DestructorDecl"
    and "isObjC B"
    and "getOverriddenDecl B = Some A"
    and "overriddenIsObjC A"
    and "overriddenKind A = OverriddenFunc"
    and "overriddenObjCSelector A = foo"
    and "objcAttr B = None \<or>
         (\<exists>attr. objcAttr B = Some attr \<and> (getName attr = None \<or> isNameImplicit attr))"
  shows "\<exists>B' attr. inferObjCName B = Inr (B', []) \<and>
           objcAttr B' = Some attr \<and> getName attr = Some foo \<and>
           getObjCSelector B' = foo"
  using assms
  by (auto simp: inferObjCName_def adoptOverriddenName_def setObjCName_def getObjCSelector_def
           split: option.splits)

theorem override_name_adopted_witness:
  "declKind sampleOverride \<noteq> DestructorDecl \<and> isObjC sampleOverride \<and>
   getOverriddenDecl sampleOverride = Some sampleBaseMethod \<and>
   overriddenIsObjC sampleBaseMethod \<and> overriddenKind sampleBaseMethod = OverriddenFunc \<and>
   overriddenObjCSelector sampleBaseMethod = ObjCSelector 1 [''doPerform''] \<and>
   objcAttr sampleOverride = None \<and>
   (\<exists>B' attr. inferObjCName sampleOverride = Inr (B', []) \<and>
           objcAttr B' = Some attr \<and> getName attr = Some (ObjCSelector 1 [''doPerform'']) \<and>
           getObjCSelector B' = ObjCSelector 1 [''doPerform''])"
proof -
  have k: "declKind sampleOverride \<noteq> DestructorDecl" "isObjC sampleOverride"
    "getOverriddenDecl sampleOverride = Some sampleBaseMethod"
    "overriddenIsObjC sampleBaseMethod" "overriddenKind sampleBaseMethod = OverriddenFunc"
    "overriddenObjCSelector sampleBaseMethod = ObjCSelector 1 [''doPerform'']"
    by (simp_all add: sampleOverride_def sampleBaseMethod_def sample_defs)
  have n: "objcAttr sampleOverride = None"
    by (simp add: sampleOverride_def sample_defs)
  show ?thesis
    using override_name_adopted[OF k] k n by simp
qed

section \<open>The kinds of convention produced and attached\<close>

lemma selectErrorKind_kinds:
  "selectErrorKind ctx AFD Reason = Inr (Some (kind, rt), ds) \<Longrightarrow>
   kind = ZeroResult \<or> kind = NilResult"
  by (auto simp: selectErrorKind_def Let_def
           split: if_splits option.splits sum.splits DeclKind.splits)

lemma formErrorConvention_kind:
  "kind = ZeroResult \<or> kind = NilResult \<or> kind = NonNilError \<Longrightarrow>
   getKind (formErrorConvention kind i paramTy resultTy) = ZeroResult \<or>
   getKind (formErrorConvention kind i paramTy resultTy) = NilResult"
  by (auto simp: getZeroResult_def getNilResult_def)

lemma isRepresentableInObjC_kinds:
  assumes "isRepresentableInObjC ctx AFD Reason = Inr (b, Some conv, ds)"
  shows "getKind conv = ZeroResult \<or> getKind conv = NilResult"
proof -
  obtain kind rt ds' where s: "selectErrorKind ctx AFD Reason = Inr (Some (kind, rt), ds')"
    and c: "conv = formErrorConvention kind (determineErrorParameterIndex ctx AFD)
                     (errorParameterTypeOf ctx) rt"
    using assms
    by (auto simp: isRepresentableInObjC_def
             split: sum.splits option.splits if_splits prod.splits)
  show ?thesis
    using selectErrorKind_kinds[OF s] formErrorConvention_kind c by blast
qed

lemma inferObjCName_convention:
  "inferObjCName D = Inr (D', ds) \<Longrightarrow>
   getForeignErrorConvention D' = getForeignErrorConvention D"
  by (auto simp: inferObjCName_def adoptOverriddenName_def setObjCName_def Let_def
           split: if_splits option.splits OverriddenKind.splits prod.splits)

lemma attachErrorConvention_source:
  "attachErrorConvention D errorConvention inClass = Inr D' \<Longrightarrow>
   getForeignErrorConvention D' = Some c \<Longrightarrow>
   getForeignErrorConvention D = Some c \<or> errorConvention = Some c \<or>
   (\<exists>baseMethod. getOverriddenDecl D = Some baseMethod \<and>
                  overriddenForeignErrorConvention baseMethod = Some c)"
  by (auto simp: attachErrorConvention_def Let_def split: if_splits option.splits)

lemma recordObjCDecl_convention_source:
  assumes "recordObjCDecl ctx D errorConvention = Inr (D', ds)"
    and "getForeignErrorConvention D' = Some c"
  shows "getForeignErrorConvention D = Some c \<or> errorConvention = Some c \<or>
         (\<exists>baseMethod. getOverriddenDecl D = Some baseMethod \<and>
                        overriddenForeignErrorConvention baseMethod = Some c)"
proof -
  consider (isMethod) inClass D1 ds1 where
      "attachErrorConvention D errorConvention inClass = Inr D1"
      "D' = D1 \<or> inferObjCName D1 = Inr (D', ds1)"
    | (isProperty) "inferObjCName D = Inr (D', ds)"
    | (unchanged) "D' = D"
    using assms(1)
    by (auto simp: recordObjCDecl_def split: if_splits sum.splits prod.splits)
  then show ?thesis
  proof cases
    case isMethod
    then have "getForeignErrorConvention D1 = Some c"
      using assms(2) inferObjCName_convention by auto
    then show ?thesis
      using attachErrorConvention_source[OF isMethod(1)] by blast
  next
    case isProperty
    then show ?thesis using assms(2) inferObjCName_convention by auto
  next
    case unchanged
    then show ?thesis using assms(2) by simp
  qed
qed

lemma diagnoseNonObjC_fields:
  "diagnoseNonObjC ctx D r = Inr (D1, r1, ds) \<Longrightarrow>
   getForeignErrorConvention D1 = getForeignErrorConvention D \<and>
   getOverriddenDecl D1 = getOverriddenDecl D"
  by (auto simp: diagnoseNonObjC_def Let_def split: if_splits sum.splits)

lemma markAsObjC_convention_source:
  assumes "markAsObjC ctx D isObjC0 errorConvention = Inr (D', ds)"
    and "getForeignErrorConvention D' = Some c"
  shows "getForeignErrorConvention D = Some c \<or> errorConvention = Some c \<or>
         (\<exists>baseMethod. getOverriddenDecl D = Some baseMethod \<and>
                        overriddenForeignErrorConvention baseMethod = Some c)"
proof (cases isObjC0)
  case None
  then show ?thesis
    using assms by (auto simp: markAsObjC_def)
next
  case (Some reason0)
  let ?D = "D\<lparr>isObjC := True\<rparr>"
  obtain D1 reason ds1 D2 ds2 where
    a: "diagnoseNonObjC ctx ?D reason0 = Inr (D1, reason, ds1)" and
    b: "recordObjCDecl ctx D1 errorConvention = Inr (D2, ds2)" and
    c: "D' = D2 \<or> D' = fst (markSwift3Inferred ctx D2)"
    using assms(1) Some
    by (auto simp: markAsObjC_def Let_def split: sum.splits prod.splits if_splits)
  have "getForeignErrorConvention D2 = Some c"
    using c assms(2) by (auto simp: markSwift3Inferred_def Let_def)
  then show ?thesis
    using recordObjCDecl_convention_source[OF b] diagnoseNonObjC_fields[OF a] by simp
qed

text \<open>
  Claim C10, as stated, fails: a convention of kind \<^verbatim>\<open>NonZeroResult\<close> is attached by
  \<^verbatim>\<open>markAsObjC\<close> to a throwing override of a method that has that convention. The
  representability check produces a \<^verbatim>\<open>ZeroResult\<close> convention for the override, and
  \<^verbatim>\<open>markAsObjC\<close> replaces it by the convention of the overridden method.
\<close>

theorem override_adopts_NonZeroResult_counterexample:
  "isRepresentableInObjC sampleContext sampleThrowingOverride OverridesObjC =
     Inr (True,
          Some (getZeroResult 0 IsNotOwned IsNotReplaced (errorParameterTypeOf sampleContext)
                  (Some (StructType ''ObjCBool''))),
          []) \<and>
   (case markAsObjC sampleContext sampleThrowingOverride (Some OverridesObjC)
           (Some (getZeroResult 0 IsNotOwned IsNotReplaced (errorParameterTypeOf sampleContext)
                    (Some (StructType ''ObjCBool'')))) of
      Inl e \<Rightarrow> None
    | Inr (D', ds) \<Rightarrow> map_option getKind (getForeignErrorConvention D')) = Some NonZeroResult"
  by (simp add: sampleThrowingOverride_def sampleImportedBase_def sampleBaseMethod_def
                sample_defs check_defs markAsObjC_def diagnoseNonObjC_def
                recordObjCDecl_def attachErrorConvention_def inferObjCName_def
                adoptOverriddenName_def setObjCName_def)

text \<open>
  Claim C10, amended. Every error convention that the representability check of a
  function produces has kind \<^verbatim>\<open>ZeroResult\<close> or \<^verbatim>\<open>NilResult\<close>, and the arm of the
  switch for \<^verbatim>\<open>NonNilError\<close> forms a \<^verbatim>\<open>NilResult\<close> convention. A convention that
  \<^verbatim>\<open>markAsObjC\<close> attaches to a declaration that had none is of one of these two
  kinds, unless it is the convention of the method that the declaration overrides,
  adopted as it is.
\<close>

theorem conventions_produced_and_attached:
  "(isRepresentableInObjC ctx AFD Reason = Inr (b, Some conv, ds) \<longrightarrow>
      getKind conv = ZeroResult \<or> getKind conv = NilResult) \<and>
   getKind (formErrorConvention NonNilError i paramTy resultTy) = NilResult \<and>
   (isRepresentableInObjC ctx AFD Reason = Inr (b, errorConvention, ds) \<and>
    getForeignErrorConvention AFD = None \<and>
    markAsObjC ctx AFD isObjC0 errorConvention = Inr (AFD', ds') \<and>
    getForeignErrorConvention AFD' = Some c \<longrightarrow>
      getKind c = ZeroResult \<or> getKind c = NilResult \<or>
      (\<exists>baseMethod. getOverriddenDecl AFD = Some baseMethod \<and>
                     overriddenForeignErrorConvention baseMethod = Some c))"
proof (intro conjI impI)
  assume "isRepresentableInObjC ctx AFD Reason = Inr (b, Some conv, ds)"
  then show "getKind conv = ZeroResult \<or> getKind conv = NilResult"
    by (rule isRepresentableInObjC_kinds)
next
  show "getKind (formErrorConvention NonNilError i paramTy resultTy) = NilResult"
    by (simp add: getNilResult_def)
next
  assume a: "isRepresentableInObjC ctx AFD Reason = Inr (b, errorConvention, ds) \<and>
    getForeignErrorConvention AFD = None \<and>
    markAsObjC ctx AFD isObjC0 errorConvention = Inr (AFD', ds') \<and>
    getForeignErrorConvention AFD' = Some c"
  then have "errorConvention = Some c \<or>
         (\<exists>baseMethod. getOverriddenDecl AFD = Some baseMethod \<and>
                        overriddenForeignErrorConvention baseMethod = Some c)"
    using markAsObjC_convention_source[of ctx AFD isObjC0 errorConvention AFD' ds' c] by auto
  then show "getKind c = ZeroResult \<or> getKind c = NilResult \<or>
      (\<exists>baseMethod. getOverriddenDecl AFD = Some baseMethod \<and>
                     overriddenForeignErrorConvention baseMethod = Some c)"
    using a isRepresentableInObjC_kinds[of ctx AFD Reason b c ds] by auto
qed

theorem conventions_produced_and_attached_witness:
  "isRepresentableInObjC sampleContext sampleThrowingOverride OverridesObjC =
     Inr (True,
          Some (getZeroResult 0 IsNotOwned IsNotReplaced (errorParameterTypeOf sampleContext)
                  (Some (StructType ''ObjCBool''))),
          []) \<and>
   getKind (getZeroResult 0 IsNotOwned IsNotReplaced (errorParameterTypeOf sampleContext)
              (Some (StructType ''ObjCBool''))) = ZeroResult \<and>
   getKind (formErrorConvention NonNilError 0 None None) = NilResult"
proof -
  have r: "isRepresentableInObjC sampleContext sampleThrowingOverride OverridesObjC =
     Inr (True,
          Some (getZeroResult 0 IsNotOwned IsNotReplaced (errorParameterTypeOf sampleContext)
                  (Some (StructType ''ObjCBool''))),
          [])"
    by (simp add: sampleThrowingOverride_def sampleImportedBase_def sampleBaseMethod_def
                  sample_defs check_defs)
  show ?thesis
    using conventions_produced_and_attached
            [of sampleContext sampleThrowingOverride OverridesObjC True
                "getZeroResult 0 IsNotOwned IsNotReplaced (errorParameterTypeOf sampleContext)
                  (Some (StructType ''ObjCBool''))" "[]" 0 None None] r
    by (simp add: getZeroResult_def)
qed

end
